theory Spec2Isabelle
  imports Main
begin

section \<open>Values exchanged with the companion\<close>

text \<open>
  The server of \<^verbatim>\<open>mcp-server-python/server.py\<close> reads JSON with \<^verbatim>\<open>json.loads\<close>,
  \<^verbatim>\<open>json.load\<close> and \<^verbatim>\<open>response.json()\<close> and then works on the Python values these return.
  The parsers themselves belong to the standard library; what the program sees is either an
  exception or one of the values below. A Python float is a binary fraction \<open>m * 2^e\<close>, an
  infinity or a NaN; a \<^verbatim>\<open>dict\<close> is kept as its list of items, whose keys are distinct.
  A Python \<^verbatim>\<open>str\<close> is kept as the bytes of its UTF-8 encoding.
\<close>

datatype pyfloat = Float int int | Inf bool | NaN

datatype json =
    JNull
  | JBool bool
  | JInt int
  | JFloat pyfloat
  | JStr string
  | JArr "json list"
  | JObj "(string \<times> json) list"

text \<open>What reading JSON gives (\<^verbatim>\<open>json.loads\<close> on a callback body, \<^verbatim>\<open>open\<close> and
  \<^verbatim>\<open>json.load\<close> on a marker file, \<^verbatim>\<open>response.json()\<close>): the message of the exception
  raised, or the value.\<close>

datatype loaded = Raised string | Loaded json

text \<open>\<^verbatim>\<open>bool(v)\<close>, as \<^verbatim>\<open>if v:\<close> takes it.\<close>

fun truthy :: "json \<Rightarrow> bool" where
  "truthy JNull = False"
| "truthy (JBool b) = b"
| "truthy (JInt i) = (i \<noteq> 0)"
| "truthy (JFloat (Float m e)) = (m \<noteq> 0)"
| "truthy (JFloat (Inf sg)) = True"
| "truthy (JFloat NaN) = True"
| "truthy (JStr s) = (s \<noteq> [])"
| "truthy (JArr xs) = (xs \<noteq> [])"
| "truthy (JObj kv) = (kv \<noteq> [])"

text \<open>\<^verbatim>\<open>d.get(k, default)\<close> on a dict.\<close>

definition py_get :: "(string \<times> json) list \<Rightarrow> string \<Rightarrow> json \<Rightarrow> json" where
  "py_get kv k dflt = (case map_of kv k of None \<Rightarrow> dflt | Some v \<Rightarrow> v)"

text \<open>Lists and dicts cannot be hashed: using one as a dict key raises \<^verbatim>\<open>TypeError\<close>.\<close>

fun hashable :: "json \<Rightarrow> bool" where
  "hashable (JArr xs) = False"
| "hashable (JObj kv) = False"
| "hashable v = True"

fun type_name :: "json \<Rightarrow> string" where
  "type_name JNull = ''NoneType''"
| "type_name (JBool b) = ''bool''"
| "type_name (JInt i) = ''int''"
| "type_name (JFloat f) = ''float''"
| "type_name (JStr s) = ''str''"
| "type_name (JArr xs) = ''list''"
| "type_name (JObj kv) = ''dict''"

text \<open>The messages of the two exceptions a misuse of a parsed value raises.\<close>

definition no_get_msg :: "json \<Rightarrow> string" where
  "no_get_msg v = [CHR 0x27] @ type_name v @ [CHR 0x27] @ '' object has no attribute '' @
                  [CHR 0x27] @ ''get'' @ [CHR 0x27]"

definition unhashable_msg :: "json \<Rightarrow> string" where
  "unhashable_msg v = ''unhashable type: '' @ [CHR 0x27] @ type_name v @ [CHR 0x27]"

section \<open>The registry, the futures and the event loop\<close>

text \<open>
  \<^verbatim>\<open>pending_requests: dict[str, asyncio.Future]\<close> holds references to futures that the
  coroutine \<^verbatim>\<open>request_user_input\<close> also holds, so the futures live in a store of their own,
  addressed by position. A future is pending, or holds a result, or holds an exception (its
  message). \<^verbatim>\<open>main_loop\<close> is \<^verbatim>\<open>None\<close> or the loop; the callbacks handed over with
  \<^verbatim>\<open>call_soon_threadsafe\<close> wait in \<open>scheduled\<close> until the loop runs them.
\<close>

datatype future = Pending | Result json | Exn string

datatype settle = SetResult json | SetException string

record state =
  pending_requests :: "string \<rightharpoonup> nat"
  main_loop :: bool
  current_callback_port :: nat
  callback_server_ready :: bool
  futures :: "future list"
  scheduled :: "(nat \<times> settle) list"

definition CALLBACK_PORT_START :: nat where
  "CALLBACK_PORT_START = 23984"

definition DEFAULT_EXTENSION_PORT :: int where
  "DEFAULT_EXTENSION_PORT = 23983"

text \<open>The module's globals as the import leaves them.\<close>

definition initial :: state where
  "initial = \<lparr>pending_requests = Map.empty, main_loop = False,
              current_callback_port = CALLBACK_PORT_START, callback_server_ready = False,
              futures = [], scheduled = []\<rparr>"

text \<open>\<^verbatim>\<open>request_id in pending_requests\<close>, for a hashable \<open>request_id\<close>: only a string
  can equal a key.\<close>

fun in_pending :: "state \<Rightarrow> json \<Rightarrow> bool" where
  "in_pending s (JStr k) = (pending_requests s k \<noteq> None)"
| "in_pending s v = False"

text \<open>\<^verbatim>\<open>"\<dots>"\<close> (the exception raised into a cancelled wait).\<close>

definition msg_cancelled :: string where
  "msg_cancelled = [CHR 0xE7, CHR 0x94, CHR 0xA8, CHR 0xE6, CHR 0x88, CHR 0xB7, CHR 0xE5,
     CHR 0x8F, CHR 0x96, CHR 0xE6, CHR 0xB6, CHR 0x88, CHR 0xE4, CHR 0xBA, CHR 0x86, CHR 0xE5,
     CHR 0xAF, CHR 0xB9, CHR 0xE8, CHR 0xAF, CHR 0x9D]"

section \<open>CallbackHandler.do\_POST\<close>

text \<open>
  Before its \<^verbatim>\<open>try\<close> the handler converts the \<^verbatim>\<open>Content-Length\<close> header with \<^verbatim>\<open>int\<close>
  and decodes the body as UTF-8; an exception there leaves the handler with no response
  written (\<open>ReadFailed\<close>, \<open>NoReply\<close>). Otherwise the body reaches \<^verbatim>\<open>json.loads\<close>.
  Inside the \<^verbatim>\<open>try\<close>, a body that is not a dict has no \<^verbatim>\<open>get\<close> and a \<open>requestId\<close> that is a
  list or a dict cannot be looked up; both raise into the \<^verbatim>\<open>except\<close> branch. The loop is
  taken to be open and the client to read its response, so that neither
  \<^verbatim>\<open>call_soon_threadsafe\<close> nor the writing of the response raises.
\<close>

datatype body_read = ReadFailed | Body loaded

record http_post =
  path :: string
  body :: body_read

datatype reply_body = NoBody | JsonSuccess | JsonError string

datatype reply = NoReply | Reply nat reply_body

text \<open>The found branch: \<^verbatim>\<open>pending_requests.pop(request_id)\<close>, then the hand-over of
  \<^verbatim>\<open>future.set_exception\<close> or \<^verbatim>\<open>future.set_result\<close> to the loop. The branch is entered
  only with the key present.\<close>

definition resolve :: "state \<Rightarrow> string \<Rightarrow> json \<Rightarrow> json \<Rightarrow> state" where
  "resolve s k cancelled user_input =
     (case pending_requests s k of
        None \<Rightarrow> s
      | Some fut \<Rightarrow>
          s\<lparr>pending_requests := (pending_requests s)(k := None),
            scheduled := scheduled s @
              [(fut, if truthy cancelled then SetException msg_cancelled
                     else SetResult user_input)]\<rparr>)"

definition do_POST :: "state \<Rightarrow> http_post \<Rightarrow> state \<times> reply" where
  "do_POST s req =
     (if path req = ''/response'' then
        (case body req of
           ReadFailed \<Rightarrow> (s, NoReply)
         | Body (Raised msg) \<Rightarrow> (s, Reply 400 (JsonError msg))
         | Body (Loaded (JObj kv)) \<Rightarrow>
             (let request_id = py_get kv ''requestId'' JNull;
                  user_input = py_get kv ''userInput'' (JStr []);
                  cancelled = py_get kv ''cancelled'' (JBool False)
              in if \<not> hashable request_id then
                   (s, Reply 400 (JsonError (unhashable_msg request_id)))
                 else if in_pending s request_id \<and> main_loop s then
                   (case request_id of
                      JStr k \<Rightarrow> (resolve s k cancelled user_input, Reply 200 JsonSuccess)
                    | _ \<Rightarrow> (s, Reply 404 (JsonError ''Request not found'')))
                 else (s, Reply 404 (JsonError ''Request not found'')))
         | Body (Loaded v) \<Rightarrow> (s, Reply 400 (JsonError (no_get_msg v))))
      else (s, Reply 404 NoBody))"


text \<open>A batch of callbacks, handled one after the other.\<close>

fun do_POSTs :: "state \<Rightarrow> http_post list \<Rightarrow> state" where
  "do_POSTs s [] = s"
| "do_POSTs s (r # rs) = do_POSTs (fst (do_POST s r)) rs"

text \<open>
  The loop runs a scheduled \<^verbatim>\<open>future.set_result\<close> or \<^verbatim>\<open>future.set_exception\<close>: a future
  that is already done raises \<^verbatim>\<open>InvalidStateError\<close> into the loop's exception handler and
  keeps its value.
\<close>

definition set_future :: "future list \<Rightarrow> nat \<times> settle \<Rightarrow> future list" where
  "set_future fs c =
     (case c of (fut, act) \<Rightarrow>
        if fut < length fs \<and> fs ! fut = Pending
        then fs[fut := (case act of SetResult v \<Rightarrow> Result v | SetException m \<Rightarrow> Exn m)]
        else fs)"

definition run_loop :: "state \<Rightarrow> state" where
  "run_loop s = s\<lparr>futures := foldl set_future (futures s) (scheduled s), scheduled := []\<rparr>"

text \<open>
  What the program keeps true of its registry: two keys never share a future, a registered
  future is pending and has no callback scheduled, and no future has two callbacks scheduled.
\<close>

definition wf :: "state \<Rightarrow> bool" where
  "wf s \<longleftrightarrow>
     inj_on (pending_requests s) (dom (pending_requests s)) \<and>
     (\<forall>k f. pending_requests s k = Some f \<longrightarrow>
        f \<notin> fst ` set (scheduled s) \<and> f < length (futures s) \<and> futures s ! f = Pending) \<and>
     distinct (map fst (scheduled s)) \<and>
     (\<forall>f \<in> fst ` set (scheduled s). f < length (futures s) \<and> futures s ! f = Pending)"

section \<open>start\_callback\_server\<close>

text \<open>
  One \<^verbatim>\<open>HTTPServer(("127.0.0.1", port), CallbackHandler)\<close> either binds, after which
  \<^verbatim>\<open>serve_forever\<close> keeps the thread, or raises \<^verbatim>\<open>OSError\<close> with its \<^verbatim>\<open>errno\<close>, or raises
  something else. The loop is \<^verbatim>\<open>for i in range(max_retries)\<close> with \<open>max_retries = 50\<close>.
\<close>

datatype bind_result = Bound | OSError "int option" | OtherError

datatype listener = Serving | Returned

definition max_retries :: nat where
  "max_retries = 50"

fun bind_loop :: "(nat \<Rightarrow> bind_result) \<Rightarrow> nat \<Rightarrow> nat \<Rightarrow> state \<Rightarrow> state \<times> listener" where
  "bind_loop bind 0 port s = (s, Returned)"
| "bind_loop bind (Suc n) port s =
     (case bind port of
        Bound \<Rightarrow> (s\<lparr>current_callback_port := port, callback_server_ready := True\<rparr>, Serving)
      | OSError errno \<Rightarrow>
          if errno \<in> {Some 10048, Some 48, Some 98} then bind_loop bind n (port + 1) s
          else (s\<lparr>callback_server_ready := True\<rparr>, Returned)
      | OtherError \<Rightarrow> (s\<lparr>callback_server_ready := True\<rparr>, Returned))"

definition start_callback_server :: "(nat \<Rightarrow> bind_result) \<Rightarrow> state \<Rightarrow> state \<times> listener" where
  "start_callback_server bind s = bind_loop bind max_retries CALLBACK_PORT_START s"

text \<open>The first two steps of \<^verbatim>\<open>main\<close>: record the running loop, start the listener.\<close>

definition main_start :: "(nat \<Rightarrow> bind_result) \<Rightarrow> state \<Rightarrow> state" where
  "main_start bind s = fst (start_callback_server bind (s\<lparr>main_loop := True\<rparr>))"

section \<open>discover\_extension\_ports\<close>

text \<open>
  What the function meets at \<^verbatim>\<open>PORT_FILE_DIR\<close>: nothing (\<^verbatim>\<open>os.path.exists\<close> is false), a
  directory that \<^verbatim>\<open>os.listdir\<close> lists, each file a name with what \<^verbatim>\<open>open\<close> and
  \<^verbatim>\<open>json.load\<close> give for it, or a path that exists and that \<^verbatim>\<open>os.listdir\<close> cannot list (a
  regular file, a directory without read permission, a directory removed in between). The
  call of \<^verbatim>\<open>os.listdir\<close> stands outside the \<^verbatim>\<open>try\<close> of the loop body, so its exception
  leaves the function: the result is the message of the exception (\<open>Inl\<close>) or the ports.
\<close>

type_synonym directory = "(string \<times> loaded) list"

datatype marker_dir = Absent | Listed directory | Unlistable string

definition endswith :: "string \<Rightarrow> string \<Rightarrow> bool" where
  "endswith s suf \<longleftrightarrow> length suf \<le> length s \<and> drop (length s - length suf) s = suf"

fun scan_ports :: "directory \<Rightarrow> json list \<Rightarrow> json list" where
  "scan_ports [] ports = ports"
| "scan_ports ((filename, content) # rest) ports =
     (if endswith filename ''.port'' then
        (case content of
           Raised e \<Rightarrow> scan_ports rest ports
         | Loaded (JObj kv) \<Rightarrow>
             (let port = py_get kv ''port'' JNull
              in if truthy port then scan_ports rest (ports @ [port])
                 else scan_ports rest ports)
         | Loaded v \<Rightarrow> scan_ports rest ports)
      else scan_ports rest ports)"

definition discover_extension_ports :: "marker_dir \<Rightarrow> string + json list" where
  "discover_extension_ports dir =
     (case dir of
        Unlistable e \<Rightarrow> Inl e
      | Absent \<Rightarrow> Inr [JInt DEFAULT_EXTENSION_PORT]
      | Listed files \<Rightarrow>
          (let ports = scan_ports files []
           in Inr (if ports = [] then [JInt DEFAULT_EXTENSION_PORT] else ports)))"

section \<open>Formatting\<close>

text \<open>
  \<^verbatim>\<open>str(v)\<close>, as an f-string takes it. The text of a float, a list or a dict is the
  interpreter's \<^verbatim>\<open>repr\<close> and is left to the parameter \<open>fmt\<close>.
\<close>

fun dec_nat :: "nat \<Rightarrow> string" where
  "dec_nat n = (if n < 10 then [''0123456789'' ! n]
                else dec_nat (n div 10) @ [''0123456789'' ! (n mod 10)])"

definition dec_int :: "int \<Rightarrow> string" where
  "dec_int i = (if i < 0 then ''-'' @ dec_nat (nat (- i)) else dec_nat (nat i))"

fun py_str :: "(json \<Rightarrow> string) \<Rightarrow> json \<Rightarrow> string" where
  "py_str fmt JNull = ''None''"
| "py_str fmt (JBool b) = (if b then ''True'' else ''False'')"
| "py_str fmt (JInt i) = dec_int i"
| "py_str fmt (JStr s) = s"
| "py_str fmt v = fmt v"

text \<open>
  The literals of the messages, in the order of the source: the default of
  \<^verbatim>\<open>result.get('error', \<dots>)\<close> ("unknown"), "cannot connect to port ", "connecting to port ",
  " timed out", "the extension returned an error: ", and the two parts of the final message
  around \<^verbatim>\<open>{MAX_RETRY_COUNT}\<close>.
\<close>

declare dec_nat.simps [simp del]

definition msg_unknown :: string where
  "msg_unknown =
    [CHR 0xE6, CHR 0x9C, CHR 0xAA, CHR 0xE7, CHR 0x9F, CHR 0xA5]"

definition msg_unreachable_pre :: string where
  "msg_unreachable_pre =
    [CHR 0xE6, CHR 0x97, CHR 0xA0, CHR 0xE6, CHR 0xB3, CHR 0x95, CHR 0xE8, CHR 0xBF, CHR
     0x9E, CHR 0xE6, CHR 0x8E, CHR 0xA5, CHR 0xE5, CHR 0x88, CHR 0xB0, CHR 0xE7, CHR 0xAB,
     CHR 0xAF, CHR 0xE5, CHR 0x8F, CHR 0xA3, CHR 0x20]"

definition msg_timeout_pre :: string where
  "msg_timeout_pre =
    [CHR 0xE8, CHR 0xBF, CHR 0x9E, CHR 0xE6, CHR 0x8E, CHR 0xA5, CHR 0xE7, CHR 0xAB, CHR
     0xAF, CHR 0xE5, CHR 0x8F, CHR 0xA3, CHR 0x20]"

definition msg_timeout_post :: string where
  "msg_timeout_post =
    [CHR 0x20, CHR 0xE8, CHR 0xB6, CHR 0x85, CHR 0xE6, CHR 0x97, CHR 0xB6]"

definition msg_ext_error_pre :: string where
  "msg_ext_error_pre =
    [CHR 0xE6, CHR 0x89, CHR 0xA9, CHR 0xE5, CHR 0xB1, CHR 0x95, CHR 0xE8, CHR 0xBF, CHR
     0x94, CHR 0xE5, CHR 0x9B, CHR 0x9E, CHR 0xE9, CHR 0x94, CHR 0x99, CHR 0xE8, CHR 0xAF,
     CHR 0xAF, CHR 0x3A, CHR 0x20]"

definition msg_failed_pre :: string where
  "msg_failed_pre =
    [CHR 0xE6, CHR 0x97, CHR 0xA0, CHR 0xE6, CHR 0xB3, CHR 0x95, CHR 0xE8, CHR 0xBF, CHR
     0x9E, CHR 0xE6, CHR 0x8E, CHR 0xA5, CHR 0xE5, CHR 0x88, CHR 0xB0, CHR 0x20, CHR 0x56,
     CHR 0x53, CHR 0x20, CHR 0x43, CHR 0x6F, CHR 0x64, CHR 0x65, CHR 0x20, CHR 0xE6, CHR
     0x89, CHR 0xA9, CHR 0xE5, CHR 0xB1, CHR 0x95, CHR 0xEF, CHR 0xBC, CHR 0x88, CHR 0xE5,
     CHR 0xB7, CHR 0xB2, CHR 0xE9, CHR 0x87, CHR 0x8D, CHR 0xE8, CHR 0xAF, CHR 0x95, CHR
     0x20]"

definition msg_failed_post :: string where
  "msg_failed_post =
    [CHR 0x20, CHR 0xE6, CHR 0xAC, CHR 0xA1, CHR 0xEF, CHR 0xBC, CHR 0x89, CHR 0xE3, CHR
     0x80, CHR 0x82]"

section \<open>try\_connect\_extension\<close>

text \<open>
  What one \<^verbatim>\<open>client.post\<close> gives: \<^verbatim>\<open>httpx.ConnectError\<close>, \<^verbatim>\<open>httpx.TimeoutException\<close>,
  another exception (its \<^verbatim>\<open>str\<close>), or a response with its status code and what
  \<^verbatim>\<open>response.json()\<close> would give.
\<close>

datatype transport = ConnectError | TimeoutException | OtherException string
  | Response nat loaded

text \<open>What the body of the \<^verbatim>\<open>for port in extension_ports\<close> loop does with one candidate:
  \<^verbatim>\<open>return (True, None)\<close>, an assignment to \<^verbatim>\<open>last_error\<close> followed by \<^verbatim>\<open>continue\<close>, or
  nothing before the next candidate.\<close>

datatype step = Accepted | Failed string | Skipped

definition post_ask :: "(json \<Rightarrow> string) \<Rightarrow> json \<Rightarrow> transport \<Rightarrow> step" where
  "post_ask fmt port r =
     (case r of
        Response status_code b \<Rightarrow>
          if status_code = 200 then
            (case b of
               Raised e \<Rightarrow> Failed e
             | Loaded (JObj kv) \<Rightarrow>
                 if truthy (py_get kv ''success'' JNull) then Accepted else Skipped
             | Loaded v \<Rightarrow> Failed (no_get_msg v))
          else if status_code = 500 then
            (case b of
               Raised e \<Rightarrow> Failed e
             | Loaded (JObj kv) \<Rightarrow>
                 Failed (msg_ext_error_pre @ py_str fmt (py_get kv ''error'' (JStr msg_unknown))
                           @ '' - '' @ py_str fmt (py_get kv ''details'' (JStr [])))
             | Loaded v \<Rightarrow> Failed (no_get_msg v))
          else Skipped
      | ConnectError \<Rightarrow> Failed (msg_unreachable_pre @ py_str fmt port)
      | TimeoutException \<Rightarrow> Failed (msg_timeout_pre @ py_str fmt port @ msg_timeout_post)
      | OtherException e \<Rightarrow> Failed e)"

text \<open>The effects a caller can observe: the numbered attempt line on \<^verbatim>\<open>stderr\<close>, each
  \<^verbatim>\<open>POST /ask\<close> with its port and payload, each \<^verbatim>\<open>asyncio.sleep\<close>.\<close>

datatype event = Attempt nat | Post json string string nat | Sleep nat

text \<open>One round sees the marker directory of its moment and a network that answers the
  \<open>i\<close>-th request of the round, sent to \<open>port\<close>, with \<open>net i port\<close>.\<close>

record round_env =
  markers :: marker_dir
  net :: "nat \<Rightarrow> json \<Rightarrow> transport"

fun connect_loop :: "(json \<Rightarrow> string) \<Rightarrow> (nat \<Rightarrow> json \<Rightarrow> transport) \<Rightarrow> string \<Rightarrow> string \<Rightarrow> nat
    \<Rightarrow> nat \<Rightarrow> json list \<Rightarrow> string option \<Rightarrow> bool \<times> string option \<times> event list" where
  "connect_loop fmt nt request_id reason cb i [] last_error = (False, last_error, [])"
| "connect_loop fmt nt request_id reason cb i (port # rest) last_error =
     (case post_ask fmt port (nt i port) of
        Accepted \<Rightarrow> (True, None, [Post port request_id reason cb])
      | Failed e \<Rightarrow>
          (case connect_loop fmt nt request_id reason cb (Suc i) rest (Some e) of
             (ok, err, evs) \<Rightarrow> (ok, err, Post port request_id reason cb # evs))
      | Skipped \<Rightarrow>
          (case connect_loop fmt nt request_id reason cb (Suc i) rest last_error of
             (ok, err, evs) \<Rightarrow> (ok, err, Post port request_id reason cb # evs)))"

text \<open>An exception of discovery leaves the function before the first request (\<open>Inl\<close>);
  everything after it runs inside the \<^verbatim>\<open>try\<close> of the loop body.\<close>

definition try_connect_extension :: "(json \<Rightarrow> string) \<Rightarrow> round_env \<Rightarrow> state \<Rightarrow> string \<Rightarrow> string
    \<Rightarrow> string + bool \<times> string option \<times> event list" where
  "try_connect_extension fmt env s request_id reason =
     (case discover_extension_ports (markers env) of
        Inl e \<Rightarrow> Inl e
      | Inr extension_ports \<Rightarrow>
          Inr (connect_loop fmt (net env) request_id reason (current_callback_port s) 0
                 extension_ports None))"

section \<open>request\_user\_input\<close>

definition MAX_RETRY_COUNT :: nat where
  "MAX_RETRY_COUNT = 5"

definition RETRY_INTERVAL :: nat where
  "RETRY_INTERVAL = 5"

text \<open>The loop \<^verbatim>\<open>for attempt in range(1, MAX_RETRY_COUNT + 1)\<close>, over the attempt numbers
  still to run; \<open>envs attempt\<close> is what round \<open>attempt\<close> meets. The \<^verbatim>\<open>await\<close> of the round
  stands in no \<^verbatim>\<open>try\<close>: an exception of the round ends the loop and is the outcome
  (\<open>Inl\<close>), beside the log written so far.\<close>

fun retry_loop :: "(json \<Rightarrow> string) \<Rightarrow> (nat \<Rightarrow> round_env) \<Rightarrow> state \<Rightarrow> string \<Rightarrow> string
    \<Rightarrow> nat list \<Rightarrow> string option \<Rightarrow> (string + bool \<times> string option) \<times> event list" where
  "retry_loop fmt envs s request_id reason [] last_error = (Inr (False, last_error), [])"
| "retry_loop fmt envs s request_id reason (attempt # rest) last_error =
     (case try_connect_extension fmt (envs attempt) s request_id reason of
        Inl e \<Rightarrow> (Inl e, [Attempt attempt])
      | Inr (success, error, evs) \<Rightarrow>
          if success then (Inr (True, last_error), Attempt attempt # evs)
          else
            (case retry_loop fmt envs s request_id reason rest error of
               (outcome, evs') \<Rightarrow>
                 (outcome,
                  Attempt attempt # evs
                    @ (if attempt < MAX_RETRY_COUNT then [Sleep RETRY_INTERVAL] else [])
                    @ evs')))"

text \<open>The final message: the two literals around \<^verbatim>\<open>{MAX_RETRY_COUNT}\<close>, then
  \<^verbatim>\<open>{last_error or ''}\<close>.\<close>

definition error_msg :: "string option \<Rightarrow> string" where
  "error_msg last_error =
     msg_failed_pre @ dec_nat MAX_RETRY_COUNT @ msg_failed_post
       @ (case last_error of None \<Rightarrow> [] | Some e \<Rightarrow> e)"

text \<open>
  The coroutine up to its \<^verbatim>\<open>await future\<close>: it has returned, or it is suspended on the
  future it created, or an exception of the retry loop has left it, past the
  \<^verbatim>\<open>pending_requests.pop\<close> and the \<^verbatim>\<open>return\<close> of the failure branch. \<open>uuid_hex\<close> is
  \<^verbatim>\<open>uuid.uuid4().hex\<close>. A cancellation of the task from outside is no step of the function
  and is not part of the model.
\<close>

datatype ask = Return "bool \<times> json" | Awaiting nat | Raise string

definition request_user_input :: "(json \<Rightarrow> string) \<Rightarrow> (nat \<Rightarrow> round_env) \<Rightarrow> string \<Rightarrow> string
    \<Rightarrow> state \<Rightarrow> state \<times> ask \<times> event list" where
  "request_user_input fmt envs uuid_hex reason s =
     (let request_id = ''req_'' @ take 12 uuid_hex;
          future = length (futures s);
          s1 = s\<lparr>futures := futures s @ [Pending],
                 pending_requests := (pending_requests s)(request_id \<mapsto> future)\<rparr>
      in case retry_loop fmt envs s1 request_id reason [1..<MAX_RETRY_COUNT + 1] None of
           (Inl e, evs) \<Rightarrow> (s1, Raise e, evs)
         | (Inr (connected, last_error), evs) \<Rightarrow>
             if \<not> connected then
               (s1\<lparr>pending_requests := (pending_requests s1)(request_id := None)\<rparr>,
                Return (False, JStr (error_msg last_error)), evs)
             else (s1, Awaiting future, evs))"

text \<open>\<^verbatim>\<open>await future\<close> with its \<^verbatim>\<open>try\<close>: no value while the future is pending.\<close>

definition await_future :: "state \<Rightarrow> nat \<Rightarrow> (bool \<times> json) option" where
  "await_future s fut =
     (if fut < length (futures s) then
        (case futures s ! fut of
           Pending \<Rightarrow> None
         | Result user_input \<Rightarrow> Some (True, user_input)
         | Exn e \<Rightarrow> Some (False, JStr e))
      else None)"

section \<open>Notions used in the statements\<close>

text \<open>Callback bodies that are answered 400: text that is not JSON, JSON that is not an
  object, and an object whose \<open>requestId\<close> cannot be hashed.\<close>

fun malformed :: "body_read \<Rightarrow> bool" where
  "malformed ReadFailed = False"
| "malformed (Body (Raised e)) = True"
| "malformed (Body (Loaded (JObj kv))) = (\<not> hashable (py_get kv ''requestId'' JNull))"
| "malformed (Body (Loaded v)) = True"

text \<open>The bind failures that the listener answers by trying the next port:
  \<^verbatim>\<open>e.errno in (10048, 48, 98)\<close>.\<close>

definition in_use :: "bind_result \<Rightarrow> bool" where
  "in_use r \<longleftrightarrow> r \<in> {OSError (Some 10048), OSError (Some 48), OSError (Some 98)}"

text \<open>The candidates of a round that receive a request: those up to and including the
  first that accepts. And the texts the round records, in the order of the candidates.\<close>

fun tried :: "(json \<Rightarrow> string) \<Rightarrow> (nat \<Rightarrow> json \<Rightarrow> transport) \<Rightarrow> nat \<Rightarrow> json list \<Rightarrow> json list" where
  "tried fmt nt i [] = []"
| "tried fmt nt i (port # rest) =
     (if post_ask fmt port (nt i port) = Accepted then [port]
      else port # tried fmt nt (Suc i) rest)"

definition round_errors :: "(json \<Rightarrow> string) \<Rightarrow> (nat \<Rightarrow> json \<Rightarrow> transport) \<Rightarrow> nat \<Rightarrow> json list
    \<Rightarrow> string list" where
  "round_errors fmt nt i ports =
     concat (map (\<lambda>(j, port). case post_ask fmt port (nt j port) of Failed e \<Rightarrow> [e] | _ \<Rightarrow> [])
                 (enumerate i ports))"

text \<open>The test that the loop body of discovery applies to a file, and the candidate the
  file then contributes: a name that ends in \<^verbatim>\<open>.port\<close> and a JSON object whose \<open>port\<close> is
  true in Python's sense, of whatever type.\<close>

fun yields_port :: "string \<times> loaded \<Rightarrow> bool" where
  "yields_port (filename, Loaded (JObj kv)) =
     (endswith filename ''.port'' \<and> truthy (py_get kv ''port'' JNull))"
| "yields_port (filename, content) = False"

fun port_of :: "string \<times> loaded \<Rightarrow> json" where
  "port_of (filename, Loaded (JObj kv)) = py_get kv ''port'' JNull"
| "port_of (filename, content) = JNull"

text \<open>The marker of the interface description, \<^verbatim>\<open>{"port": <int>}\<close>: a JSON object that
  names an integer port.\<close>

fun marker_per_spec :: "loaded \<Rightarrow> bool" where
  "marker_per_spec (Loaded (JObj kv)) =
     (case map_of kv ''port'' of Some (JInt p) \<Rightarrow> True | _ \<Rightarrow> False)"
| "marker_per_spec content = False"

text \<open>What round \<open>n\<close> of the retry loop gives. A round returns with or without an
  acceptance, or raises; a round that returns has its error and the requests it sent. The
  lines a round adds to the log, and the numbered lines of a log.\<close>

definition round_result :: "(json \<Rightarrow> string) \<Rightarrow> (nat \<Rightarrow> round_env) \<Rightarrow> state \<Rightarrow> string \<Rightarrow> string \<Rightarrow> nat
    \<Rightarrow> string + bool \<times> string option \<times> event list" where
  "round_result fmt envs s request_id reason n =
     try_connect_extension fmt (envs n) s request_id reason"

fun returned :: "string + bool \<times> string option \<times> event list \<Rightarrow> bool" where
  "returned (Inl e) = False"
| "returned (Inr r) = True"

fun accepted :: "string + bool \<times> string option \<times> event list \<Rightarrow> bool" where
  "accepted (Inl e) = False"
| "accepted (Inr (success, error, evs)) = success"

fun declined :: "string + bool \<times> string option \<times> event list \<Rightarrow> bool" where
  "declined (Inl e) = False"
| "declined (Inr (success, error, evs)) = (\<not> success)"

fun round_error :: "string + bool \<times> string option \<times> event list \<Rightarrow> string option" where
  "round_error (Inl e) = None"
| "round_error (Inr (success, error, evs)) = error"

fun round_events :: "string + bool \<times> string option \<times> event list \<Rightarrow> event list" where
  "round_events (Inl e) = []"
| "round_events (Inr (success, error, evs)) = evs"

definition round_log :: "(json \<Rightarrow> string) \<Rightarrow> (nat \<Rightarrow> round_env) \<Rightarrow> state \<Rightarrow> string \<Rightarrow> string \<Rightarrow> nat
    \<Rightarrow> event list" where
  "round_log fmt envs s request_id reason n =
     Attempt n # round_events (round_result fmt envs s request_id reason n)"

fun is_attempt :: "event \<Rightarrow> bool" where
  "is_attempt (Attempt n) = True"
| "is_attempt e = False"

text \<open>A callback that names the request \<open>k\<close>, and a state in which the ask for \<open>k\<close>
  is suspended on the future \<open>fut\<close>.\<close>

fun names_body :: "body_read \<Rightarrow> string \<Rightarrow> bool" where
  "names_body (Body (Loaded (JObj kv))) k = (py_get kv ''requestId'' JNull = JStr k)"
| "names_body b k = False"

definition names :: "http_post \<Rightarrow> string \<Rightarrow> bool" where
  "names req k \<longleftrightarrow> path req = ''/response'' \<and> names_body (body req) k"

definition awaiting :: "state \<Rightarrow> string \<Rightarrow> nat \<Rightarrow> bool" where
  "awaiting s k fut \<longleftrightarrow> wf s \<and> main_loop s \<and> pending_requests s k = Some fut"

section \<open>Example inputs\<close>

text \<open>A state with one request registered and its future pending, and the state after
  \<^verbatim>\<open>main\<close> has recorded its loop and the listener has bound its first port.\<close>

definition one_pending :: state where
  "one_pending = initial\<lparr>pending_requests := [''req_1'' \<mapsto> 0], main_loop := True,
                          futures := [Pending]\<rparr>"

definition running :: state where
  "running = main_start (\<lambda>port. Bound) initial"

text \<open>The callbacks \<^verbatim>\<open>{"requestId": k, "userInput": u, "cancelled": false}\<close> and
  \<^verbatim>\<open>{"requestId": k, "cancelled": true}\<close>.\<close>

definition answer :: "string \<Rightarrow> string \<Rightarrow> http_post" where
  "answer k u = \<lparr>path = ''/response'',
     body = Body (Loaded (JObj [(''requestId'', JStr k), (''userInput'', JStr u),
                                (''cancelled'', JBool False)]))\<rparr>"

definition cancel :: "string \<Rightarrow> http_post" where
  "cancel k = \<lparr>path = ''/response'',
     body = Body (Loaded (JObj [(''requestId'', JStr k), (''cancelled'', JBool True)]))\<rparr>"

text \<open>A companion that answers every request with \<^verbatim>\<open>200 {"success": false}\<close>, and one
  that answers with \<^verbatim>\<open>200 {"success": true}\<close>.\<close>

definition quiet :: "nat \<Rightarrow> json \<Rightarrow> transport" where
  "quiet i port = Response 200 (Loaded (JObj [(''success'', JBool False)]))"

definition accepting :: "nat \<Rightarrow> json \<Rightarrow> transport" where
  "accepting i port = Response 200 (Loaded (JObj [(''success'', JBool True)]))"

text \<open>What the rounds of an ask meet: a timeout in each of the rounds 1 to 4 and a 404
  response in round 5; a refused connection in round 1 and then a companion that does not
  accept; a refused connection in round 1 and acceptance from round 2 on; a refused
  connection in every round; acceptance in every round; a refused connection in every round
  and, in round 3, a regular file where the marker directory should be. The others have no
  marker directory.\<close>

definition late_silence :: "nat \<Rightarrow> round_env" where
  "late_silence n = \<lparr>markers = Absent,
     net = (\<lambda>i port. if n < 5 then TimeoutException else Response 404 (Raised []))\<rparr>"

definition refused_then_quiet :: "nat \<Rightarrow> round_env" where
  "refused_then_quiet n = \<lparr>markers = Absent,
     net = (if n = 1 then (\<lambda>i port. ConnectError) else quiet)\<rparr>"

definition second_round :: "nat \<Rightarrow> round_env" where
  "second_round n = \<lparr>markers = Absent,
     net = (if n = 1 then (\<lambda>i port. ConnectError) else accepting)\<rparr>"

definition unreachable :: "nat \<Rightarrow> round_env" where
  "unreachable n = \<lparr>markers = Absent, net = (\<lambda>i port. ConnectError)\<rparr>"

definition accepted_at_once :: "nat \<Rightarrow> round_env" where
  "accepted_at_once n = \<lparr>markers = Absent, net = accepting\<rparr>"

definition file_in_the_way :: "nat \<Rightarrow> round_env" where
  "file_in_the_way n =
     \<lparr>markers = (if n = 3 then Unlistable ''[Errno 20] Not a directory'' else Absent),
      net = (\<lambda>i port. ConnectError)\<rparr>"

text \<open>A marker directory with two files that yield a port among files that are skipped:
  one that is not JSON, one with another suffix, one whose port is 0, one that holds a list.\<close>

definition mixed_directory :: directory where
  "mixed_directory =
     [(''a.port'', Loaded (JObj [(''port'', JInt 4000)])),
      (''b.port'', Raised ''Expecting value: line 1 column 1 (char 0)''),
      (''c.txt'', Loaded (JObj [(''port'', JInt 1)])),
      (''d.port'', Loaded (JObj [(''port'', JInt 0)])),
      (''e.port'', Loaded (JArr [])),
      (''f.port'', Loaded (JObj [(''port'', JInt 4001)]))]"

chapter \<open>Properties\<close>

section \<open>The callback handler\<close>

lemma wf_initial: "wf initial"
  by (simp add: wf_def initial_def)

lemma resolve_wf: "wf s \<Longrightarrow> wf (resolve s k c u)"
  unfolding wf_def resolve_def
  by (cases "pending_requests s k") (auto simp: inj_on_def dom_def split: if_splits)

lemma do_POST_cases:
  "fst (do_POST s req) = s \<or> (\<exists>k c u. fst (do_POST s req) = resolve s k c u)"
  by (auto simp: do_POST_def Let_def split: body_read.splits loaded.splits json.splits)

lemma do_POST_wf: "wf s \<Longrightarrow> wf (fst (do_POST s req))"
  using do_POST_cases [of s req] resolve_wf by metis

lemma do_POSTs_wf: "wf s \<Longrightarrow> wf (do_POSTs s reqs)"
  by (induction reqs arbitrary: s) (auto simp: do_POST_wf)

lemma at_most_one:
  "distinct (map fst cs) \<Longrightarrow> length (filter (\<lambda>c. fst c = f) cs) \<le> Suc 0"
  by (induction cs) (auto simp: filter_empty_conv image_iff)

lemma do_POST_not_found:
  assumes "path req = ''/response''" and "body req = Body (Loaded (JObj kv))"
    and "hashable (py_get kv ''requestId'' JNull)"
    and "\<not> (in_pending s (py_get kv ''requestId'' JNull) \<and> main_loop s)"
  shows "do_POST s req = (s, Reply 404 (JsonError ''Request not found''))"
  using assms by (auto simp: do_POST_def Let_def)

lemma do_POST_found:
  assumes "path req = ''/response''" and "body req = Body (Loaded (JObj kv))"
    and "py_get kv ''requestId'' JNull = JStr k"
    and "pending_requests s k = Some f" and "main_loop s"
  shows "do_POST s req =
           (resolve s k (py_get kv ''cancelled'' (JBool False)) (py_get kv ''userInput'' (JStr [])),
            Reply 200 JsonSuccess)"
  using assms by (auto simp: do_POST_def Let_def)

lemma resolve_removes: "pending_requests (resolve s k c u) k = None"
  by (auto simp: resolve_def split: option.splits)

lemma do_POST_again:
  assumes "path req = ''/response''" and "body req = Body (Loaded (JObj kv))"
    and "hashable (py_get kv ''requestId'' JNull)"
  shows "do_POST (fst (do_POST s req)) req =
           (fst (do_POST s req), Reply 404 (JsonError ''Request not found''))"
proof (cases "in_pending s (py_get kv ''requestId'' JNull) \<and> main_loop s")
  case False
  then have "do_POST s req = (s, Reply 404 (JsonError ''Request not found''))"
    using assms do_POST_not_found by blast
  then show ?thesis by simp
next
  case True
  then obtain k f where k: "py_get kv ''requestId'' JNull = JStr k" "pending_requests s k = Some f"
    by (cases "py_get kv ''requestId'' JNull") auto
  have "fst (do_POST s req) =
          resolve s k (py_get kv ''cancelled'' (JBool False)) (py_get kv ''userInput'' (JStr []))"
    using do_POST_found [OF assms(1,2) k] True by simp
  then have "\<not> in_pending (fst (do_POST s req)) (py_get kv ''requestId'' JNull)"
    by (simp add: k resolve_removes)
  then show ?thesis using do_POST_not_found [OF assms] by blast
qed

text \<open>
  C1. A callback whose \<open>requestId\<close> is not a key of the registry is answered 404 with the
  error body "Request not found" and leaves the whole state as it was: the registry, the
  futures and the callbacks scheduled on the loop. The same callback sent a second time is
  answered so whatever the first did, since a resolved request has left the registry. Over
  any batch of callbacks no future gets more than one resolution scheduled.
\<close>

theorem callback_unknown_id_not_found:
  assumes "path req = ''/response''" and "body req = Body (Loaded (JObj kv))"
    and "hashable (py_get kv ''requestId'' JNull)"
  shows "(\<not> in_pending s (py_get kv ''requestId'' JNull) \<longrightarrow>
            do_POST s req = (s, Reply 404 (JsonError ''Request not found'')))
       \<and> do_POST (fst (do_POST s req)) req =
            (fst (do_POST s req), Reply 404 (JsonError ''Request not found''))
       \<and> (wf s \<longrightarrow>
            length (filter (\<lambda>c. fst c = f) (scheduled (do_POSTs s reqs))) \<le> 1)"
proof (intro conjI impI)
  assume "\<not> in_pending s (py_get kv ''requestId'' JNull)"
  then show "do_POST s req = (s, Reply 404 (JsonError ''Request not found''))"
    using assms do_POST_not_found by blast
next
  show "do_POST (fst (do_POST s req)) req =
          (fst (do_POST s req), Reply 404 (JsonError ''Request not found''))"
    using assms by (rule do_POST_again)
next
  assume "wf s"
  then have "wf (do_POSTs s reqs)" by (rule do_POSTs_wf)
  then have "distinct (map fst (scheduled (do_POSTs s reqs)))" by (simp add: wf_def)
  then show "length (filter (\<lambda>c. fst c = f) (scheduled (do_POSTs s reqs))) \<le> 1"
    using at_most_one by fastforce
qed


theorem callback_unknown_id_not_found_witness:
  "path (answer ''req_2'' ''go on'') = ''/response''
   \<and> hashable (JStr ''req_2'')
   \<and> \<not> in_pending one_pending (JStr ''req_2'')
   \<and> wf one_pending
   \<and> do_POST one_pending (answer ''req_2'' ''go on'')
       = (one_pending, Reply 404 (JsonError ''Request not found''))
   \<and> snd (do_POST one_pending (answer ''req_1'' ''go on'')) = Reply 200 JsonSuccess
   \<and> snd (do_POST (fst (do_POST one_pending (answer ''req_1'' ''go on'')))
             (answer ''req_1'' ''go on'')) = Reply 404 (JsonError ''Request not found'')
   \<and> length (filter (\<lambda>c. fst c = 0)
        (scheduled (do_POSTs one_pending
           [answer ''req_1'' ''go on'', answer ''req_1'' ''again'']))) \<le> 1"
proof -
  have w: "wf one_pending"
    by (simp add: wf_def one_pending_def initial_def)
  have h2: "hashable (py_get [(''requestId'', JStr ''req_2''), (''userInput'', JStr ''go on''),
                                (''cancelled'', JBool False)] ''requestId'' JNull)"
    by (simp add: py_get_def)
  have h1: "hashable (py_get [(''requestId'', JStr ''req_1''), (''userInput'', JStr ''go on''),
                                (''cancelled'', JBool False)] ''requestId'' JNull)"
    by (simp add: py_get_def)
  have a: "\<not> in_pending one_pending (JStr ''req_2'')"
    by (simp add: one_pending_def initial_def)
  have ok: "snd (do_POST one_pending (answer ''req_1'' ''go on'')) = Reply 200 JsonSuccess"
    by (simp add: do_POST_def answer_def py_get_def one_pending_def initial_def)
  show ?thesis
    using w a ok
      callback_unknown_id_not_found [of "answer ''req_2'' ''go on''" _ one_pending 0
        "[answer ''req_1'' ''go on'', answer ''req_1'' ''again'']", OF _ _ h2]
      callback_unknown_id_not_found [of "answer ''req_1'' ''go on''" _ one_pending 0 "[]",
        OF _ _ h1]
    by (simp add: answer_def py_get_def)
qed


lemma do_POST_malformed:
  assumes "path req = ''/response''" and "malformed (body req)"
  shows "\<exists>e. do_POST s req = (s, Reply 400 (JsonError e))"
  using assms
  by (cases "body req" rule: malformed.cases) (auto simp: do_POST_def Let_def)

text \<open>
  C10. While \<^verbatim>\<open>main_loop\<close> is still \<^verbatim>\<open>None\<close>, a well-formed callback is answered 404
  "Request not found" and the state stays as it was, also when its \<open>requestId\<close> is pending
  in the registry. A callback is answered 200 exactly when the registry holds its id and the
  loop reference has been recorded.
\<close>

theorem callback_before_loop_recorded:
  assumes "path req = ''/response''" and "body req = Body (Loaded (JObj kv))"
    and "hashable (py_get kv ''requestId'' JNull)"
  shows "(\<not> main_loop s \<longrightarrow> do_POST s req = (s, Reply 404 (JsonError ''Request not found'')))
       \<and> (snd (do_POST s req) = Reply 200 JsonSuccess
            \<longleftrightarrow> in_pending s (py_get kv ''requestId'' JNull) \<and> main_loop s)"
  using assms
  by (cases "py_get kv ''requestId'' JNull") (auto simp: do_POST_def Let_def)

theorem callback_before_loop_recorded_witness:
  "path (answer ''req_1'' ''go on'') = ''/response''
   \<and> hashable (JStr ''req_1'')
   \<and> in_pending (one_pending\<lparr>main_loop := False\<rparr>) (JStr ''req_1'')
   \<and> \<not> main_loop (one_pending\<lparr>main_loop := False\<rparr>)
   \<and> do_POST (one_pending\<lparr>main_loop := False\<rparr>) (answer ''req_1'' ''go on'')
       = (one_pending\<lparr>main_loop := False\<rparr>, Reply 404 (JsonError ''Request not found''))
   \<and> snd (do_POST one_pending (answer ''req_1'' ''go on'')) = Reply 200 JsonSuccess"
proof -
  have h: "hashable (py_get [(''requestId'', JStr ''req_1''), (''userInput'', JStr ''go on''),
                               (''cancelled'', JBool False)] ''requestId'' JNull)"
    by (simp add: py_get_def)
  have p: "in_pending (one_pending\<lparr>main_loop := False\<rparr>) (JStr ''req_1'')"
    and q: "in_pending one_pending (JStr ''req_1'')" and m: "main_loop one_pending"
    by (simp_all add: one_pending_def initial_def)
  show ?thesis
    using p q m
      callback_before_loop_recorded [of "answer ''req_1'' ''go on''" _
        "one_pending\<lparr>main_loop := False\<rparr>", OF _ _ h]
      callback_before_loop_recorded [of "answer ''req_1'' ''go on''" _ one_pending, OF _ _ h]
    by (simp add: answer_def py_get_def)
qed

text \<open>
  C8, as stated, fails on bodies that lack fields. An object without \<open>requestId\<close> is
  answered 404, not 400; an object with only the \<open>requestId\<close> of a pending request resolves
  that request with the defaults and removes it from the registry.
\<close>

theorem callback_missing_fields_counterexample:
  "do_POST one_pending \<lparr>path = ''/response'',
       body = Body (Loaded (JObj [(''userInput'', JStr ''go on'')]))\<rparr>
     = (one_pending, Reply 404 (JsonError ''Request not found''))
   \<and> snd (do_POST one_pending \<lparr>path = ''/response'',
       body = Body (Loaded (JObj [(''requestId'', JStr ''req_1'')]))\<rparr>) = Reply 200 JsonSuccess
   \<and> pending_requests (fst (do_POST one_pending \<lparr>path = ''/response'',
       body = Body (Loaded (JObj [(''requestId'', JStr ''req_1'')]))\<rparr>)) ''req_1'' = None
   \<and> pending_requests one_pending ''req_1'' = Some 0"
  by (simp add: do_POST_def py_get_def one_pending_def initial_def resolve_def)

text \<open>
  C8, amended. A callback whose body is not JSON, or is JSON but not an object, or names a
  \<open>requestId\<close> that is a list or an object, is answered 400 with an error body and changes
  nothing; a request that was pending is still resolved by a well-formed callback that
  follows. An object without \<open>requestId\<close> is answered 404, also without any change. An
  object that names a pending request and has no \<open>cancelled\<close> is taken as not cancelled, and
  one that has no \<open>userInput\<close> either delivers the empty text: the request leaves the
  registry and the loop is handed \<^verbatim>\<open>set_result\<close> with the \<open>userInput\<close> given, or with \<^verbatim>\<open>""\<close>.
\<close>

theorem malformed_callback_bad_request:
  assumes "path req = ''/response''"
  shows "(malformed (body req) \<longrightarrow>
            (\<exists>e. do_POST s req = (s, Reply 400 (JsonError e)))
          \<and> (pending_requests s k = Some f \<and> main_loop s \<longrightarrow>
               do_POST (fst (do_POST s req)) (answer k u)
                 = (resolve s k (JBool False) (JStr u), Reply 200 JsonSuccess)))
       \<and> (body req = Body (Loaded (JObj kv)) \<and> map_of kv ''requestId'' = None \<longrightarrow>
            do_POST s req = (s, Reply 404 (JsonError ''Request not found'')))
       \<and> (body req = Body (Loaded (JObj kv)) \<and> map_of kv ''requestId'' = Some (JStr k)
            \<and> map_of kv ''cancelled'' = None
            \<and> pending_requests s k = Some f \<and> main_loop s \<longrightarrow>
            do_POST s req
              = (s\<lparr>pending_requests := (pending_requests s)(k := None),
                   scheduled := scheduled s @
                     [(f, SetResult (case map_of kv ''userInput'' of
                                       None \<Rightarrow> JStr [] | Some user_input \<Rightarrow> user_input))]\<rparr>,
                 Reply 200 JsonSuccess))"
proof (intro conjI impI)
  assume m: "malformed (body req)"
  from do_POST_malformed [OF assms m]
  show "\<exists>e. do_POST s req = (s, Reply 400 (JsonError e))" .
next
  assume m: "malformed (body req)" and p: "pending_requests s k = Some f \<and> main_loop s"
  have "fst (do_POST s req) = s"
    using do_POST_malformed [OF assms m, of s] by auto
  moreover have "do_POST s (answer k u) = (resolve s k (JBool False) (JStr u), Reply 200 JsonSuccess)"
    using p by (simp add: do_POST_def answer_def py_get_def)
  ultimately show "do_POST (fst (do_POST s req)) (answer k u)
                 = (resolve s k (JBool False) (JStr u), Reply 200 JsonSuccess)" by simp
next
  assume "body req = Body (Loaded (JObj kv)) \<and> map_of kv ''requestId'' = None"
  then show "do_POST s req = (s, Reply 404 (JsonError ''Request not found''))"
    using assms by (simp add: do_POST_def py_get_def)
next
  assume a: "body req = Body (Loaded (JObj kv)) \<and> map_of kv ''requestId'' = Some (JStr k)
            \<and> map_of kv ''cancelled'' = None
            \<and> pending_requests s k = Some f \<and> main_loop s"
  then have "py_get kv ''requestId'' JNull = JStr k"
    and c: "py_get kv ''cancelled'' (JBool False) = JBool False"
    by (simp_all add: py_get_def)
  with a assms have "do_POST s req
      = (resolve s k (JBool False) (py_get kv ''userInput'' (JStr [])), Reply 200 JsonSuccess)"
    using do_POST_found [of req kv k s f] by simp
  with a show "do_POST s req
              = (s\<lparr>pending_requests := (pending_requests s)(k := None),
                   scheduled := scheduled s @
                     [(f, SetResult (case map_of kv ''userInput'' of
                                       None \<Rightarrow> JStr [] | Some user_input \<Rightarrow> user_input))]\<rparr>,
                 Reply 200 JsonSuccess)"
    by (simp add: resolve_def py_get_def)
qed

theorem malformed_callback_bad_request_witness:
  "malformed (Body (Raised ''Expecting value: line 1 column 1 (char 0)''))
   \<and> pending_requests one_pending ''req_1'' = Some 0 \<and> main_loop one_pending
   \<and> do_POST one_pending \<lparr>path = ''/response'',
         body = Body (Raised ''Expecting value: line 1 column 1 (char 0)'')\<rparr>
       = (one_pending, Reply 400 (JsonError ''Expecting value: line 1 column 1 (char 0)''))
   \<and> do_POST (fst (do_POST one_pending \<lparr>path = ''/response'',
         body = Body (Raised ''Expecting value: line 1 column 1 (char 0)'')\<rparr>))
        (answer ''req_1'' ''go on'')
       = (resolve one_pending ''req_1'' (JBool False) (JStr ''go on''), Reply 200 JsonSuccess)
   \<and> do_POST one_pending \<lparr>path = ''/response'', body = Body (Loaded (JObj []))\<rparr>
       = (one_pending, Reply 404 (JsonError ''Request not found''))
   \<and> do_POST one_pending \<lparr>path = ''/response'',
         body = Body (Loaded (JObj [(''requestId'', JStr ''req_1'')]))\<rparr>
       = (one_pending\<lparr>pending_requests := Map.empty,
                      scheduled := [(0, SetResult (JStr []))]\<rparr>,
          Reply 200 JsonSuccess)"
proof -
  have p: "pending_requests one_pending ''req_1'' = Some 0 \<and> main_loop one_pending"
    by (simp add: one_pending_def initial_def)
  have q: "(pending_requests one_pending)(''req_1'' := None) = Map.empty"
    "scheduled one_pending = []"
    by (simp_all add: one_pending_def initial_def)
  show ?thesis
    using p
      malformed_callback_bad_request [of "\<lparr>path = ''/response'',
         body = Body (Raised ''Expecting value: line 1 column 1 (char 0)'')\<rparr>"
         one_pending "''req_1''" 0 "''go on''" "[]"]
      malformed_callback_bad_request [of "\<lparr>path = ''/response'',
         body = Body (Loaded (JObj []))\<rparr>" one_pending "''req_1''" 0 "''go on''" "[]"]
      malformed_callback_bad_request [of "\<lparr>path = ''/response'',
         body = Body (Loaded (JObj [(''requestId'', JStr ''req_1'')]))\<rparr>"
         one_pending "''req_1''" 0 "''go on''" "[(''requestId'', JStr ''req_1'')]"]
    by (auto simp: q do_POST_def)
qed

section \<open>Port discovery\<close>

text \<open>The loop over the listing collects the ports of the files that pass its test, in the
  order of the listing.\<close>

lemma scan_ports_filter:
  "scan_ports files ports = ports @ map port_of (filter yields_port files)"
proof (induction files arbitrary: ports)
  case Nil
  show ?case by simp
next
  case (Cons entry files)
  obtain filename content where entry: "entry = (filename, content)" by (cases entry)
  show ?case
  proof (cases content)
    case (Raised e)
    with entry Cons show ?thesis by simp
  next
    case (Loaded v)
    with entry Cons show ?thesis by (cases v) (simp_all add: Let_def)
  qed
qed

lemma discover_listed:
  "discover_extension_ports (Listed files) =
     Inr (if filter yields_port files = [] then [JInt DEFAULT_EXTENSION_PORT]
          else map port_of (filter yields_port files))"
  by (simp add: discover_extension_ports_def scan_ports_filter Let_def)

lemma discover_mixed_directory:
  "discover_extension_ports (Listed mixed_directory) = Inr [JInt 4000, JInt 4001]"
  by (simp add: discover_listed mixed_directory_def endswith_def py_get_def)

text \<open>
  C7. Discovery does not return the default port in two cases where no valid marker is
  there to be read. A file \<^verbatim>\<open>x.port\<close> that holds \<^verbatim>\<open>{"port": "oops"}\<close> is no marker of the
  form \<^verbatim>\<open>{"port": <int>}\<close>, yet discovery returns the text \<^verbatim>\<open>"oops"\<close> as its one candidate,
  against its own result type \<^verbatim>\<open>list[int]\<close>. And where a regular file stands in place of the
  marker directory, the listing raises and discovery returns nothing at all.
\<close>

theorem discover_not_default:
  "\<not> marker_per_spec (Loaded (JObj [(''port'', JStr ''oops'')]))
   \<and> discover_extension_ports (Listed [(''x.port'', Loaded (JObj [(''port'', JStr ''oops'')]))])
       = Inr [JStr ''oops'']
   \<and> discover_extension_ports (Unlistable ''[Errno 20] Not a directory'')
       = Inl ''[Errno 20] Not a directory''"
  by (simp add: discover_extension_ports_def endswith_def py_get_def)

section \<open>Listener\<close>

lemma bind_loop_all_in_use:
  "(\<And>p. bind p = OSError (Some 98)) \<Longrightarrow> bind_loop bind n port s = (s, Returned)"
  by (induction n arbitrary: port) simp_all

text \<open>
  C9. With every port of the probe range in use (errno 98 on each bind) the loop runs out
  of its fifty attempts and the function returns with \<open>callback_server_ready\<close> still
  unset, unlike the two other failure branches, which set it.
\<close>

theorem listener_exhausted_not_ready:
  "start_callback_server (\<lambda>p. OSError (Some 98)) initial = (initial, Returned)
   \<and> \<not> callback_server_ready (fst (start_callback_server (\<lambda>p. OSError (Some 98)) initial))"
  by (simp add: start_callback_server_def bind_loop_all_in_use initial_def)

text \<open>In every other run the flag is set: it is unset at the end only if it was unset at
  the start and each of the \<open>n\<close> ports tried was in use.\<close>

lemma bind_loop_ready:
  "callback_server_ready (fst (bind_loop bind n port s))
     \<longleftrightarrow> callback_server_ready s \<or> (\<exists>i<n. \<not> in_use (bind (port + i)))"
proof (induction n arbitrary: port)
  case 0
  show ?case by simp
next
  case (Suc n)
  have ex: "(\<exists>i<Suc n. \<not> in_use (bind (port + i)))
            \<longleftrightarrow> \<not> in_use (bind port) \<or> (\<exists>i<n. \<not> in_use (bind (port + 1 + i)))"
    by (auto simp: less_Suc_eq_0_disj)
  show ?case
    unfolding ex
    by (cases "bind port") (auto simp: Suc in_use_def)
qed

section \<open>One round of connection attempts\<close>

lemma connect_loop_success:
  "fst (connect_loop fmt nt request_id reason cb i ports last_error)
     \<longleftrightarrow> (\<exists>j<length ports. post_ask fmt (ports ! j) (nt (i + j) (ports ! j)) = Accepted)"
proof (induction ports arbitrary: i last_error)
  case Nil
  show ?case by simp
next
  case (Cons port rest)
  have ex: "(\<exists>j<length (port # rest).
               post_ask fmt ((port # rest) ! j) (nt (i + j) ((port # rest) ! j)) = Accepted)
            \<longleftrightarrow> post_ask fmt port (nt i port) = Accepted
                \<or> (\<exists>j<length rest. post_ask fmt (rest ! j) (nt (Suc i + j) (rest ! j)) = Accepted)"
    by (auto simp: less_Suc_eq_0_disj)
  show ?case
    unfolding ex
    by (cases "post_ask fmt port (nt i port)") (simp_all add: Cons split_beta)
qed

lemma connect_loop_events:
  "snd (snd (connect_loop fmt nt request_id reason cb i ports last_error))
     = map (\<lambda>port. Post port request_id reason cb) (tried fmt nt i ports)"
proof (induction ports arbitrary: i last_error)
  case Nil
  show ?case by simp
next
  case (Cons port rest)
  show ?case
    by (cases "post_ask fmt port (nt i port)") (simp_all add: Cons split_beta)
qed

lemma round_errors_Nil: "round_errors fmt nt i [] = []"
  by (simp add: round_errors_def)

lemma round_errors_Cons:
  "round_errors fmt nt i (port # rest)
     = (case post_ask fmt port (nt i port) of Failed e \<Rightarrow> [e] | _ \<Rightarrow> [])
         @ round_errors fmt nt (Suc i) rest"
  by (simp add: round_errors_def)

lemma connect_loop_error:
  "\<not> fst (connect_loop fmt nt request_id reason cb i ports last_error) \<Longrightarrow>
   fst (snd (connect_loop fmt nt request_id reason cb i ports last_error))
     = (if round_errors fmt nt i ports = [] then last_error
        else Some (last (round_errors fmt nt i ports)))"
proof (induction ports arbitrary: i last_error)
  case Nil
  show ?case by (simp add: round_errors_Nil)
next
  case (Cons port rest)
  show ?case
  proof (cases "post_ask fmt port (nt i port)")
    case Accepted
    with Cons.prems show ?thesis by simp
  next
    case (Failed e)
    with Cons.prems have "\<not> fst (connect_loop fmt nt request_id reason cb (Suc i) rest (Some e))"
      by (simp add: split_beta)
    from Cons.IH [OF this] Failed show ?thesis
      by (simp add: round_errors_Cons split_beta)
  next
    case Skipped
    with Cons.prems have "\<not> fst (connect_loop fmt nt request_id reason cb (Suc i) rest last_error)"
      by (simp add: split_beta)
    from Cons.IH [OF this] Skipped show ?thesis
      by (simp add: round_errors_Cons split_beta)
  qed
qed




section \<open>The retry loop\<close>

lemma declined_round:
  "declined (round_result fmt envs s request_id reason n) \<Longrightarrow>
   \<exists>err evs. try_connect_extension fmt (envs n) s request_id reason = Inr (False, err, evs)"
  by (cases "try_connect_extension fmt (envs n) s request_id reason")
     (auto simp: round_result_def)

lemma accepted_round:
  "accepted (round_result fmt envs s request_id reason n) \<Longrightarrow>
   \<exists>err evs. try_connect_extension fmt (envs n) s request_id reason = Inr (True, err, evs)"
  by (cases "try_connect_extension fmt (envs n) s request_id reason")
     (auto simp: round_result_def)

lemma returned_round:
  "returned (round_result fmt envs s request_id reason n) \<Longrightarrow>
   \<exists>ok err evs. try_connect_extension fmt (envs n) s request_id reason = Inr (ok, err, evs)"
  by (cases "try_connect_extension fmt (envs n) s request_id reason")
     (auto simp: round_result_def)

text \<open>Rounds that return without an acceptance only add to the log and leave the error of
  the last of them.\<close>

lemma retry_loop_prefix:
  "\<forall>n\<in>set pre. declined (round_result fmt envs s request_id reason n) \<Longrightarrow>
   retry_loop fmt envs s request_id reason (pre @ rest) last_error
     = (fst (retry_loop fmt envs s request_id reason rest
               (if pre = [] then last_error
                else round_error (round_result fmt envs s request_id reason (last pre)))),
        concat (map (\<lambda>n. round_log fmt envs s request_id reason n
                       @ (if n < MAX_RETRY_COUNT then [Sleep RETRY_INTERVAL] else [])) pre)
          @ snd (retry_loop fmt envs s request_id reason rest
                   (if pre = [] then last_error
                    else round_error (round_result fmt envs s request_id reason (last pre)))))"
proof (induction pre arbitrary: last_error)
  case Nil
  show ?case by simp
next
  case (Cons n pre)
  from Cons.prems obtain err evs
    where r: "try_connect_extension fmt (envs n) s request_id reason = Inr (False, err, evs)"
    using declined_round [of fmt envs s request_id reason n] by auto
  have "\<forall>n\<in>set pre. declined (round_result fmt envs s request_id reason n)"
    using Cons.prems by simp
  from Cons.IH [OF this, of err] show ?case
    by (simp add: r round_result_def round_log_def split_beta)
qed

lemma retry_loop_failed:
  "\<forall>n\<in>set ns. declined (round_result fmt envs s request_id reason n) \<Longrightarrow>
   retry_loop fmt envs s request_id reason ns last_error
     = (Inr (False,
             if ns = [] then last_error
             else round_error (round_result fmt envs s request_id reason (last ns))),
        concat (map (\<lambda>n. round_log fmt envs s request_id reason n
                       @ (if n < MAX_RETRY_COUNT then [Sleep RETRY_INTERVAL] else [])) ns))"
  using retry_loop_prefix [of ns fmt envs s request_id reason "[]" last_error] by simp

lemma retry_loop_accepted:
  assumes "\<forall>n\<in>set pre. declined (round_result fmt envs s request_id reason n)"
    and "accepted (round_result fmt envs s request_id reason k)"
  shows "retry_loop fmt envs s request_id reason (pre @ k # post) last_error
     = (Inr (True,
             if pre = [] then last_error
             else round_error (round_result fmt envs s request_id reason (last pre))),
        concat (map (\<lambda>n. round_log fmt envs s request_id reason n
                       @ (if n < MAX_RETRY_COUNT then [Sleep RETRY_INTERVAL] else [])) pre)
          @ round_log fmt envs s request_id reason k)"
proof -
  from assms(2) obtain err evs
    where r: "try_connect_extension fmt (envs k) s request_id reason = Inr (True, err, evs)"
    using accepted_round [of fmt envs s request_id reason k] by auto
  show ?thesis
    unfolding retry_loop_prefix [OF assms(1)]
    by (simp add: r round_result_def round_log_def)
qed

text \<open>A round that raises ends the loop with its exception, after the numbered line of
  that round.\<close>

lemma retry_loop_raised:
  assumes "\<forall>n\<in>set pre. declined (round_result fmt envs s request_id reason n)"
    and "round_result fmt envs s request_id reason k = Inl e"
  shows "retry_loop fmt envs s request_id reason (pre @ k # post) last_error
     = (Inl e,
        concat (map (\<lambda>n. round_log fmt envs s request_id reason n
                       @ (if n < MAX_RETRY_COUNT then [Sleep RETRY_INTERVAL] else [])) pre)
          @ [Attempt k])"
  unfolding retry_loop_prefix [OF assms(1)]
  using assms(2) by (simp add: round_result_def)

text \<open>A round that accepts is reached when the rounds before it return.\<close>

lemma retry_loop_connects:
  "\<forall>n\<in>set pre. returned (round_result fmt envs s request_id reason n) \<Longrightarrow>
   accepted (round_result fmt envs s request_id reason k) \<Longrightarrow>
   \<exists>err. fst (retry_loop fmt envs s request_id reason (pre @ k # post) last_error)
            = Inr (True, err)"
proof (induction pre arbitrary: last_error)
  case Nil
  then obtain err evs
    where "try_connect_extension fmt (envs k) s request_id reason = Inr (True, err, evs)"
    using accepted_round [of fmt envs s request_id reason k] by auto
  then show ?case by simp
next
  case (Cons n pre)
  from Cons.prems obtain ok err evs
    where r: "try_connect_extension fmt (envs n) s request_id reason = Inr (ok, err, evs)"
    using returned_round [of fmt envs s request_id reason n] by auto
  have "\<exists>err'. fst (retry_loop fmt envs s request_id reason (pre @ k # post) err)
                  = Inr (True, err')"
    using Cons.IH [of err] Cons.prems by simp
  then show ?case
    by (cases ok) (auto simp: r split_beta)
qed

text \<open>The requests of a round are no numbered lines, so a log has at most one numbered
  line for each round the loop was given.\<close>

lemma round_has_no_attempt:
  "try_connect_extension fmt env s request_id reason = Inr (ok, err, evs) \<Longrightarrow>
   filter is_attempt evs = []"
proof -
  assume a: "try_connect_extension fmt env s request_id reason = Inr (ok, err, evs)"
  then obtain ports where "discover_extension_ports (markers env) = Inr ports"
    and "connect_loop fmt (net env) request_id reason (current_callback_port s) 0 ports None
           = (ok, err, evs)"
    by (auto simp: try_connect_extension_def split: sum.splits)
  then have "evs = map (\<lambda>port. Post port request_id reason (current_callback_port s))
                     (tried fmt (net env) 0 ports)"
    using connect_loop_events [of fmt "net env" request_id reason "current_callback_port s" 0
        ports None] by simp
  then show ?thesis by (simp add: filter_empty_conv)
qed

lemma retry_loop_attempts:
  "length (filter is_attempt (snd (retry_loop fmt envs s request_id reason ns last_error)))
     \<le> length ns"
proof (induction ns arbitrary: last_error)
  case Nil
  show ?case by simp
next
  case (Cons n ns)
  show ?case
  proof (cases "try_connect_extension fmt (envs n) s request_id reason")
    case (Inl e)
    then show ?thesis by simp
  next
    case (Inr r)
    obtain ok err evs where r: "r = (ok, err, evs)" by (cases r)
    have none: "filter is_attempt evs = []"
      using Inr r by (auto dest: round_has_no_attempt)
    show ?thesis
      using Cons.IH [of err] by (simp add: Inr r none split_beta)
  qed
qed

lemma sleeps_before:
  "k \<le> MAX_RETRY_COUNT \<Longrightarrow>
   map (\<lambda>n. f n @ (if n < MAX_RETRY_COUNT then [Sleep RETRY_INTERVAL] else [])) [i..<k]
     = map (\<lambda>n. f n @ [Sleep RETRY_INTERVAL]) [i..<k]"
  by simp

lemma rounds_split:
  "1 \<le> k \<Longrightarrow> k \<le> MAX_RETRY_COUNT \<Longrightarrow>
   [1..<MAX_RETRY_COUNT + 1] = [1..<k] @ k # [Suc k..<MAX_RETRY_COUNT + 1]"
proof -
  assume k: "1 \<le> k" "k \<le> MAX_RETRY_COUNT"
  then have "[1..<MAX_RETRY_COUNT + 1] = [1..<k] @ [k..<k + (MAX_RETRY_COUNT + 1 - k)]"
    using upt_add_eq_append [of 1 k "MAX_RETRY_COUNT + 1 - k"] by simp
  also have "[k..<k + (MAX_RETRY_COUNT + 1 - k)] = k # [Suc k..<MAX_RETRY_COUNT + 1]"
    using k by (simp add: upt_conv_Cons)
  finally show ?thesis .
qed

lemma bind_loop_first:
  "bind port = Bound \<Longrightarrow> 0 < n \<Longrightarrow>
   bind_loop bind n port s
     = (s\<lparr>current_callback_port := port, callback_server_ready := True\<rparr>, Serving)"
  by (cases n) simp_all

lemma running_eq:
  "running = initial\<lparr>main_loop := True, callback_server_ready := True\<rparr>"
  by (simp add: running_def main_start_def start_callback_server_def bind_loop_first
        max_retries_def initial_def)

lemma rounds_eq: "[1..<MAX_RETRY_COUNT + 1] = [1, 2, 3, 4, 5]"
  by (simp add: MAX_RETRY_COUNT_def upt_conv_Cons)

lemma default_port_text: "dec_int 23983 = ''23983''"
  by (simp add: dec_int_def dec_nat.simps)

lemma five_text: "dec_nat 5 = ''5''"
  by (simp add: dec_nat.simps)

lemma last_rounds: "1 < k \<Longrightarrow> last [1..<k] = k - 1"
  by (cases k) simp_all

lemma retry_loop_first_accept:
  assumes a: "1 \<le> k \<and> k \<le> MAX_RETRY_COUNT
      \<and> accepted (round_result fmt envs s request_id reason k)
      \<and> (\<forall>n. 1 \<le> n \<and> n < k \<longrightarrow> declined (round_result fmt envs s request_id reason n))"
  shows "retry_loop fmt envs s request_id reason [1..<MAX_RETRY_COUNT + 1] None
        = (Inr (True,
                if k = 1 then None
                else round_error (round_result fmt envs s request_id reason (k - 1))),
           concat (map (\<lambda>n. round_log fmt envs s request_id reason n @ [Sleep RETRY_INTERVAL])
                       [1..<k])
             @ round_log fmt envs s request_id reason k)"
proof -
  from a have pre: "\<forall>n\<in>set [1..<k]. declined (round_result fmt envs s request_id reason n)"
    by simp
  have k: "1 \<le> k" "k \<le> MAX_RETRY_COUNT"
    and ok: "accepted (round_result fmt envs s request_id reason k)"
    using a by simp_all
  have err: "(if [1..<k] = [] then None
              else round_error (round_result fmt envs s request_id reason (last [1..<k])))
             = (if k = 1 then None
                else round_error (round_result fmt envs s request_id reason (k - 1)))"
    using k by (cases "k = 1") (simp_all add: last_rounds)
  have "retry_loop fmt envs s request_id reason [1..<MAX_RETRY_COUNT + 1] None
        = retry_loop fmt envs s request_id reason ([1..<k] @ k # [Suc k..<MAX_RETRY_COUNT + 1]) None"
    using rounds_split [OF k] by simp
  also have "\<dots> = (Inr (True,
             if [1..<k] = [] then None
             else round_error (round_result fmt envs s request_id reason (last [1..<k]))),
        concat (map (\<lambda>n. round_log fmt envs s request_id reason n
                       @ (if n < MAX_RETRY_COUNT then [Sleep RETRY_INTERVAL] else [])) [1..<k])
          @ round_log fmt envs s request_id reason k)"
    using pre ok by (rule retry_loop_accepted)
  finally show ?thesis
    unfolding err sleeps_before [OF k(2)] .
qed

lemma retry_loop_none_accept:
  assumes a: "\<forall>n. 1 \<le> n \<and> n \<le> MAX_RETRY_COUNT \<longrightarrow>
           declined (round_result fmt envs s request_id reason n)"
  shows "retry_loop fmt envs s request_id reason [1..<MAX_RETRY_COUNT + 1] None
        = (Inr (False, round_error (round_result fmt envs s request_id reason MAX_RETRY_COUNT)),
           concat (map (\<lambda>n. round_log fmt envs s request_id reason n @ [Sleep RETRY_INTERVAL])
                       [1..<MAX_RETRY_COUNT])
             @ round_log fmt envs s request_id reason MAX_RETRY_COUNT)"
proof -
  from a have all: "\<forall>n\<in>set [1..<MAX_RETRY_COUNT + 1].
                    declined (round_result fmt envs s request_id reason n)"
    by auto
  have "1 \<le> MAX_RETRY_COUNT" by (simp add: MAX_RETRY_COUNT_def)
  then have split: "[1..<MAX_RETRY_COUNT + 1] = [1..<MAX_RETRY_COUNT] @ [MAX_RETRY_COUNT]"
    by simp
  have ev: "concat (map (\<lambda>n. round_log fmt envs s request_id reason n
                       @ (if n < MAX_RETRY_COUNT then [Sleep RETRY_INTERVAL] else []))
                    [1..<MAX_RETRY_COUNT + 1])
            = concat (map (\<lambda>n. round_log fmt envs s request_id reason n @ [Sleep RETRY_INTERVAL])
                       [1..<MAX_RETRY_COUNT])
                @ round_log fmt envs s request_id reason MAX_RETRY_COUNT"
    unfolding split by (simp add: sleeps_before)
  have lst: "(if [1..<MAX_RETRY_COUNT + 1] = [] then None
              else round_error (round_result fmt envs s request_id reason
                                  (last [1..<MAX_RETRY_COUNT + 1])))
             = round_error (round_result fmt envs s request_id reason MAX_RETRY_COUNT)"
    unfolding split by simp
  show ?thesis
    using retry_loop_failed [OF all, of None] unfolding ev lst .
qed

lemma retry_loop_round_raises:
  assumes a: "1 \<le> k \<and> k \<le> MAX_RETRY_COUNT
      \<and> round_result fmt envs s request_id reason k = Inl e
      \<and> (\<forall>n. 1 \<le> n \<and> n < k \<longrightarrow> declined (round_result fmt envs s request_id reason n))"
  shows "retry_loop fmt envs s request_id reason [1..<MAX_RETRY_COUNT + 1] None
        = (Inl e,
           concat (map (\<lambda>n. round_log fmt envs s request_id reason n @ [Sleep RETRY_INTERVAL])
                       [1..<k])
             @ [Attempt k])"
proof -
  from a have pre: "\<forall>n\<in>set [1..<k]. declined (round_result fmt envs s request_id reason n)"
    by simp
  have k: "1 \<le> k" "k \<le> MAX_RETRY_COUNT"
    and r: "round_result fmt envs s request_id reason k = Inl e"
    using a by simp_all
  have "retry_loop fmt envs s request_id reason [1..<MAX_RETRY_COUNT + 1] None
        = retry_loop fmt envs s request_id reason ([1..<k] @ k # [Suc k..<MAX_RETRY_COUNT + 1]) None"
    using rounds_split [OF k] by simp
  also have "\<dots> = (Inl e,
        concat (map (\<lambda>n. round_log fmt envs s request_id reason n
                       @ (if n < MAX_RETRY_COUNT then [Sleep RETRY_INTERVAL] else [])) [1..<k])
          @ [Attempt k])"
    using pre r by (rule retry_loop_raised)
  finally show ?thesis
    unfolding sleeps_before [OF k(2)] .
qed

text \<open>
  C5, as stated, fails on the error reported: with a timeout in each of the rounds 1 to 4
  and a 404 response in round 5, the loop ends with no error text, although the fourth
  round recorded one.
\<close>

theorem retry_last_error_counterexample:
  "retry_loop (\<lambda>v. []) late_silence one_pending ''req_1'' ''done'' [1..<MAX_RETRY_COUNT + 1] None
     = (Inr (False, None),
        [Attempt 1, Post (JInt 23983) ''req_1'' ''done'' 23984, Sleep 5,
         Attempt 2, Post (JInt 23983) ''req_1'' ''done'' 23984, Sleep 5,
         Attempt 3, Post (JInt 23983) ''req_1'' ''done'' 23984, Sleep 5,
         Attempt 4, Post (JInt 23983) ''req_1'' ''done'' 23984, Sleep 5,
         Attempt 5, Post (JInt 23983) ''req_1'' ''done'' 23984])
   \<and> try_connect_extension (\<lambda>v. []) (late_silence 4) one_pending ''req_1'' ''done''
       = Inr (False, Some (msg_timeout_pre @ ''23983'' @ msg_timeout_post),
              [Post (JInt 23983) ''req_1'' ''done'' 23984])"
  unfolding rounds_eq
  by (simp add: try_connect_extension_def discover_extension_ports_def late_silence_def
        post_ask_def default_port_text one_pending_def initial_def MAX_RETRY_COUNT_def
        RETRY_INTERVAL_def CALLBACK_PORT_START_def DEFAULT_EXTENSION_PORT_def)

text \<open>
  C5, amended. With rounds that return (discovery can list the marker directory, or finds
  none), the loop runs the rounds 1, 2, \<dots> in order and stops at the first round that is
  accepted; it sleeps \<open>RETRY_INTERVAL = 5\<close> seconds after every failed round except round 5.
  When all five rounds return without an acceptance it reports what round 5 returned as its
  error. In every run the log has at most \<open>MAX_RETRY_COUNT = 5\<close> numbered rounds. Each round
  runs discovery again and sends its request to the candidates discovered in that round, in
  order, up to and including the first that accepts; a round that is not accepted returns
  the last text its candidates recorded, or none when they recorded none.
\<close>

theorem retry_rounds:
  "(1 \<le> k \<and> k \<le> MAX_RETRY_COUNT \<and> accepted (round_result fmt envs s request_id reason k)
      \<and> (\<forall>n. 1 \<le> n \<and> n < k \<longrightarrow> declined (round_result fmt envs s request_id reason n)) \<longrightarrow>
      retry_loop fmt envs s request_id reason [1..<MAX_RETRY_COUNT + 1] None
        = (Inr (True,
                if k = 1 then None
                else round_error (round_result fmt envs s request_id reason (k - 1))),
           concat (map (\<lambda>n. round_log fmt envs s request_id reason n @ [Sleep RETRY_INTERVAL])
                       [1..<k])
             @ round_log fmt envs s request_id reason k))
   \<and> ((\<forall>n. 1 \<le> n \<and> n \<le> MAX_RETRY_COUNT \<longrightarrow>
           declined (round_result fmt envs s request_id reason n)) \<longrightarrow>
      retry_loop fmt envs s request_id reason [1..<MAX_RETRY_COUNT + 1] None
        = (Inr (False, round_error (round_result fmt envs s request_id reason MAX_RETRY_COUNT)),
           concat (map (\<lambda>n. round_log fmt envs s request_id reason n @ [Sleep RETRY_INTERVAL])
                       [1..<MAX_RETRY_COUNT])
             @ round_log fmt envs s request_id reason MAX_RETRY_COUNT))
   \<and> length (filter is_attempt
               (snd (retry_loop fmt envs s request_id reason [1..<MAX_RETRY_COUNT + 1] None)))
       \<le> MAX_RETRY_COUNT
   \<and> MAX_RETRY_COUNT = 5 \<and> RETRY_INTERVAL = 5
   \<and> (discover_extension_ports (markers (envs n)) = Inr ports \<longrightarrow>
        returned (round_result fmt envs s request_id reason n)
      \<and> accepted (round_result fmt envs s request_id reason n)
          = (\<exists>j<length ports. post_ask fmt (ports ! j) (net (envs n) j (ports ! j)) = Accepted)
      \<and> round_events (round_result fmt envs s request_id reason n)
          = map (\<lambda>port. Post port request_id reason (current_callback_port s))
              (tried fmt (net (envs n)) 0 ports)
      \<and> (declined (round_result fmt envs s request_id reason n) \<longrightarrow>
           round_error (round_result fmt envs s request_id reason n)
             = (if round_errors fmt (net (envs n)) 0 ports = [] then None
                else Some (last (round_errors fmt (net (envs n)) 0 ports)))))"
proof (intro conjI impI)
  assume "1 \<le> k \<and> k \<le> MAX_RETRY_COUNT \<and> accepted (round_result fmt envs s request_id reason k)
      \<and> (\<forall>n. 1 \<le> n \<and> n < k \<longrightarrow> declined (round_result fmt envs s request_id reason n))"
  then show "retry_loop fmt envs s request_id reason [1..<MAX_RETRY_COUNT + 1] None
        = (Inr (True,
                if k = 1 then None
                else round_error (round_result fmt envs s request_id reason (k - 1))),
           concat (map (\<lambda>n. round_log fmt envs s request_id reason n @ [Sleep RETRY_INTERVAL])
                       [1..<k])
             @ round_log fmt envs s request_id reason k)"
    by (rule retry_loop_first_accept)
next
  assume "\<forall>n. 1 \<le> n \<and> n \<le> MAX_RETRY_COUNT \<longrightarrow>
           declined (round_result fmt envs s request_id reason n)"
  then show "retry_loop fmt envs s request_id reason [1..<MAX_RETRY_COUNT + 1] None
        = (Inr (False, round_error (round_result fmt envs s request_id reason MAX_RETRY_COUNT)),
           concat (map (\<lambda>n. round_log fmt envs s request_id reason n @ [Sleep RETRY_INTERVAL])
                       [1..<MAX_RETRY_COUNT])
             @ round_log fmt envs s request_id reason MAX_RETRY_COUNT)"
    by (rule retry_loop_none_accept)
next
  show "length (filter is_attempt
               (snd (retry_loop fmt envs s request_id reason [1..<MAX_RETRY_COUNT + 1] None)))
       \<le> MAX_RETRY_COUNT"
    by (rule ord_le_eq_trans [OF retry_loop_attempts]) simp
next
  show "MAX_RETRY_COUNT = 5" by (simp add: MAX_RETRY_COUNT_def)
next
  show "RETRY_INTERVAL = 5" by (simp add: RETRY_INTERVAL_def)
next
  assume "discover_extension_ports (markers (envs n)) = Inr ports"
  then show "returned (round_result fmt envs s request_id reason n)"
    by (simp add: round_result_def try_connect_extension_def)
next
  assume d: "discover_extension_ports (markers (envs n)) = Inr ports"
  obtain ok err evs
    where c: "connect_loop fmt (net (envs n)) request_id reason (current_callback_port s) 0
                ports None = (ok, err, evs)"
    by (cases "connect_loop fmt (net (envs n)) request_id reason (current_callback_port s) 0
                 ports None")
  show "accepted (round_result fmt envs s request_id reason n)
          = (\<exists>j<length ports. post_ask fmt (ports ! j) (net (envs n) j (ports ! j)) = Accepted)"
    using connect_loop_success [of fmt "net (envs n)" request_id reason
        "current_callback_port s" 0 ports None]
    by (simp add: round_result_def try_connect_extension_def d c)
next
  assume d: "discover_extension_ports (markers (envs n)) = Inr ports"
  obtain ok err evs
    where c: "connect_loop fmt (net (envs n)) request_id reason (current_callback_port s) 0
                ports None = (ok, err, evs)"
    by (cases "connect_loop fmt (net (envs n)) request_id reason (current_callback_port s) 0
                 ports None")
  show "round_events (round_result fmt envs s request_id reason n)
          = map (\<lambda>port. Post port request_id reason (current_callback_port s))
              (tried fmt (net (envs n)) 0 ports)"
    using connect_loop_events [of fmt "net (envs n)" request_id reason
        "current_callback_port s" 0 ports None]
    by (simp add: round_result_def try_connect_extension_def d c)
next
  assume d: "discover_extension_ports (markers (envs n)) = Inr ports"
    and n: "declined (round_result fmt envs s request_id reason n)"
  obtain ok err evs
    where c: "connect_loop fmt (net (envs n)) request_id reason (current_callback_port s) 0
                ports None = (ok, err, evs)"
    by (cases "connect_loop fmt (net (envs n)) request_id reason (current_callback_port s) 0
                 ports None")
  show "round_error (round_result fmt envs s request_id reason n)
             = (if round_errors fmt (net (envs n)) 0 ports = [] then None
                else Some (last (round_errors fmt (net (envs n)) 0 ports)))"
    using n connect_loop_error [of fmt "net (envs n)" request_id reason
        "current_callback_port s" 0 ports None]
    by (simp add: round_result_def try_connect_extension_def d c)
qed

theorem retry_rounds_witness:
  "(1::nat) \<le> 2 \<and> 2 \<le> MAX_RETRY_COUNT
   \<and> accepted (round_result (\<lambda>v. []) second_round one_pending ''req_1'' ''done'' 2)
   \<and> declined (round_result (\<lambda>v. []) second_round one_pending ''req_1'' ''done'' 1)
   \<and> discover_extension_ports (markers (second_round 1)) = Inr [JInt 23983]
   \<and> retry_loop (\<lambda>v. []) second_round one_pending ''req_1'' ''done'' [1..<MAX_RETRY_COUNT + 1] None
       = (Inr (True, Some (msg_unreachable_pre @ ''23983'')),
          [Attempt 1, Post (JInt 23983) ''req_1'' ''done'' 23984, Sleep 5,
           Attempt 2, Post (JInt 23983) ''req_1'' ''done'' 23984])
   \<and> retry_loop (\<lambda>v. []) unreachable one_pending ''req_1'' ''done'' [1..<MAX_RETRY_COUNT + 1] None
       = (Inr (False, Some (msg_unreachable_pre @ ''23983'')),
          [Attempt 1, Post (JInt 23983) ''req_1'' ''done'' 23984, Sleep 5,
           Attempt 2, Post (JInt 23983) ''req_1'' ''done'' 23984, Sleep 5,
           Attempt 3, Post (JInt 23983) ''req_1'' ''done'' 23984, Sleep 5,
           Attempt 4, Post (JInt 23983) ''req_1'' ''done'' 23984, Sleep 5,
           Attempt 5, Post (JInt 23983) ''req_1'' ''done'' 23984])
   \<and> round_error (round_result (\<lambda>v. []) second_round one_pending ''req_1'' ''done'' 1)
       = Some (last (round_errors (\<lambda>v. []) (net (second_round 1)) 0 [JInt 23983]))"
proof -
  note defs = round_result_def try_connect_extension_def discover_extension_ports_def
    second_round_def unreachable_def accepting_def post_ask_def py_get_def default_port_text
    one_pending_def initial_def CALLBACK_PORT_START_def DEFAULT_EXTENSION_PORT_def
  have r1: "declined (round_result (\<lambda>v. []) second_round one_pending ''req_1'' ''done'' 1)"
    and r2: "accepted (round_result (\<lambda>v. []) second_round one_pending ''req_1'' ''done'' 2)"
    by (simp_all add: defs)
  have "n = 1" if "1 \<le> n \<and> n < 2" for n :: nat
    using that by arith
  with r1 have h1: "\<forall>n. 1 \<le> n \<and> n < 2 \<longrightarrow>
              declined (round_result (\<lambda>v. []) second_round one_pending ''req_1'' ''done'' n)"
    by blast
  have h2: "\<forall>n. 1 \<le> n \<and> n \<le> MAX_RETRY_COUNT \<longrightarrow>
              declined (round_result (\<lambda>v. []) unreachable one_pending ''req_1'' ''done'' n)"
    by (simp add: defs)
  have m: "(1::nat) \<le> 2" "2 \<le> MAX_RETRY_COUNT" by (simp_all add: MAX_RETRY_COUNT_def)
  have d: "discover_extension_ports (markers (second_round 1)) = Inr [JInt 23983]"
    by (simp add: defs)
  have hyp: "1 \<le> (2::nat) \<and> 2 \<le> MAX_RETRY_COUNT
      \<and> accepted (round_result (\<lambda>v. []) second_round one_pending ''req_1'' ''done'' 2)
      \<and> (\<forall>n. 1 \<le> n \<and> n < 2 \<longrightarrow>
             declined (round_result (\<lambda>v. []) second_round one_pending ''req_1'' ''done'' n))"
    using m r2 h1 by (intro conjI)
  note inst = retry_rounds [of 2 "\<lambda>v. []" second_round one_pending "''req_1''" "''done''" 1
      "[JInt 23983]"]
  have a: "retry_loop (\<lambda>v. []) second_round one_pending ''req_1'' ''done''
             [1..<MAX_RETRY_COUNT + 1] None
           = (Inr (True,
                   if (2::nat) = 1 then None
                   else round_error (round_result (\<lambda>v. []) second_round one_pending ''req_1''
                                       ''done'' (2 - 1))),
              concat (map (\<lambda>n. round_log (\<lambda>v. []) second_round one_pending ''req_1'' ''done'' n
                             @ [Sleep RETRY_INTERVAL]) [1..<2])
                @ round_log (\<lambda>v. []) second_round one_pending ''req_1'' ''done'' 2)"
    by (rule inst [THEN conjunct1, THEN mp, OF hyp])
  have b: "retry_loop (\<lambda>v. []) unreachable one_pending ''req_1'' ''done''
             [1..<MAX_RETRY_COUNT + 1] None
           = (Inr (False,
                   round_error (round_result (\<lambda>v. []) unreachable one_pending ''req_1'' ''done''
                                  MAX_RETRY_COUNT)),
              concat (map (\<lambda>n. round_log (\<lambda>v. []) unreachable one_pending ''req_1'' ''done'' n
                             @ [Sleep RETRY_INTERVAL]) [1..<MAX_RETRY_COUNT])
                @ round_log (\<lambda>v. []) unreachable one_pending ''req_1'' ''done'' MAX_RETRY_COUNT)"
    by (rule retry_rounds [THEN conjunct2, THEN conjunct1, THEN mp, OF h2])
  show ?thesis
    unfolding a b
    by (simp add: defs round_log_def round_errors_def RETRY_INTERVAL_def MAX_RETRY_COUNT_def
          upt_conv_Cons)
qed

section \<open>The ask as a whole\<close>

lemma attempts_of_round:
  "filter is_attempt (round_log fmt envs s request_id reason n) = [Attempt n]"
proof (cases "try_connect_extension fmt (envs n) s request_id reason")
  case (Inl e)
  then show ?thesis by (simp add: round_log_def round_result_def)
next
  case (Inr r)
  obtain ok err evs where r: "r = (ok, err, evs)" by (cases r)
  have "filter is_attempt evs = []"
    using Inr r by (auto dest: round_has_no_attempt)
  then show ?thesis by (simp add: round_log_def round_result_def Inr r)
qed

lemma attempts_of_rounds:
  "filter is_attempt
     (concat (map (\<lambda>n. round_log fmt envs s request_id reason n @ [Sleep t]) ns)) = map Attempt ns"
  by (induction ns) (simp_all add: attempts_of_round)

lemma retry_loop_port:
  "current_callback_port s' = current_callback_port s \<Longrightarrow>
   retry_loop fmt envs s' request_id reason ns last_error
     = retry_loop fmt envs s request_id reason ns last_error"
proof (induction ns arbitrary: last_error)
  case Nil
  show ?case by simp
next
  case (Cons n ns)
  have "try_connect_extension fmt (envs n) s' request_id reason
        = try_connect_extension fmt (envs n) s request_id reason"
    using Cons.prems by (simp add: try_connect_extension_def split: sum.splits)
  then show ?case
    using Cons.IH [OF Cons.prems]
    by (cases "try_connect_extension fmt (envs n) s request_id reason")
       (simp_all add: split_beta)
qed

lemma request_user_input_unfold:
  "request_user_input fmt envs uuid_hex reason s =
     (case retry_loop fmt envs s (''req_'' @ take 12 uuid_hex) reason [1..<MAX_RETRY_COUNT + 1] None of
        (Inl e, evs) \<Rightarrow>
          (s\<lparr>futures := futures s @ [Pending],
             pending_requests :=
               (pending_requests s)(''req_'' @ take 12 uuid_hex \<mapsto> length (futures s))\<rparr>,
           Raise e, evs)
      | (Inr (connected, last_error), evs) \<Rightarrow>
          if \<not> connected then
            (s\<lparr>futures := futures s @ [Pending],
               pending_requests := (pending_requests s)(''req_'' @ take 12 uuid_hex := None)\<rparr>,
             Return (False, JStr (error_msg last_error)), evs)
          else
            (s\<lparr>futures := futures s @ [Pending],
               pending_requests :=
                 (pending_requests s)(''req_'' @ take 12 uuid_hex \<mapsto> length (futures s))\<rparr>,
             Awaiting (length (futures s)), evs))"
proof -
  have "retry_loop fmt envs
          (s\<lparr>futures := futures s @ [Pending],
             pending_requests :=
               (pending_requests s)(''req_'' @ take 12 uuid_hex \<mapsto> length (futures s))\<rparr>)
          (''req_'' @ take 12 uuid_hex) reason [1..<MAX_RETRY_COUNT + 1] None
        = retry_loop fmt envs s (''req_'' @ take 12 uuid_hex) reason [1..<MAX_RETRY_COUNT + 1] None"
    by (rule retry_loop_port) simp
  then show ?thesis
    by (simp add: request_user_input_def Let_def split: prod.splits sum.splits)
qed

text \<open>
  When a round raises, after rounds that returned without an acceptance, the exception
  leaves the ask: nothing is returned and the request stays in the registry.
\<close>

lemma request_user_input_round_raises:
  assumes "1 \<le> k \<and> k \<le> MAX_RETRY_COUNT
      \<and> round_result fmt envs s (''req_'' @ take 12 uuid_hex) reason k = Inl e
      \<and> (\<forall>n. 1 \<le> n \<and> n < k \<longrightarrow>
            declined (round_result fmt envs s (''req_'' @ take 12 uuid_hex) reason n))"
  shows "fst (snd (request_user_input fmt envs uuid_hex reason s)) = Raise e"
    and "pending_requests (fst (request_user_input fmt envs uuid_hex reason s))
           (''req_'' @ take 12 uuid_hex) = Some (length (futures s))"
  unfolding request_user_input_unfold retry_loop_round_raises [OF assms] by simp_all

lemma file_in_the_way_raises:
  "fst (snd (request_user_input (\<lambda>v. []) file_in_the_way ''0123456789abcdef0123456789abcdef''
               ''done'' running)) = Raise ''[Errno 20] Not a directory''
   \<and> pending_requests
        (fst (request_user_input (\<lambda>v. []) file_in_the_way ''0123456789abcdef0123456789abcdef''
                ''done'' running)) ''req_0123456789ab'' = Some 0"
  unfolding request_user_input_unfold rounds_eq
  by (simp add: try_connect_extension_def discover_extension_ports_def file_in_the_way_def
        post_ask_def default_port_text DEFAULT_EXTENSION_PORT_def MAX_RETRY_COUNT_def
        running_eq initial_def)

text \<open>
  C4, as stated, fails on the text carried: with the connection refused in round 1 and a
  companion that answers \<^verbatim>\<open>200 {"success": false}\<close> in the rounds 2 to 5, the ask returns the
  bare final message, without the text that round 1 recorded.
\<close>

theorem connect_failed_text_counterexample:
  "fst (snd (request_user_input (\<lambda>v. []) refused_then_quiet ''0123456789abcdef0123456789abcdef''
               ''done'' running))
     = Return (False, JStr (msg_failed_pre @ ''5'' @ msg_failed_post))
   \<and> try_connect_extension (\<lambda>v. []) (refused_then_quiet 1) running ''req_0123456789ab'' ''done''
       = Inr (False, Some (msg_unreachable_pre @ ''23983''),
              [Post (JInt 23983) ''req_0123456789ab'' ''done'' 23984])"
  unfolding request_user_input_unfold rounds_eq
  by (simp add: try_connect_extension_def discover_extension_ports_def refused_then_quiet_def
        quiet_def post_ask_def py_get_def default_port_text error_msg_def five_text
        DEFAULT_EXTENSION_PORT_def MAX_RETRY_COUNT_def running_eq initial_def
        CALLBACK_PORT_START_def)

text \<open>
  C4, amended. When every round returns and none is accepted, the ask runs exactly
  \<open>MAX_RETRY_COUNT\<close> rounds, numbered 1 to 5, and returns without ever waiting on its future;
  the result is the failure pair whose text is the final message followed by what round 5
  returned as its error (by nothing when round 5 recorded none); the registry no longer holds
  the request.
\<close>

theorem connect_failed_after_all_rounds:
  assumes "\<forall>n. 1 \<le> n \<and> n \<le> MAX_RETRY_COUNT \<longrightarrow>
             declined (round_result fmt envs s (''req_'' @ take 12 uuid_hex) reason n)"
  shows "request_user_input fmt envs uuid_hex reason s
      = (s\<lparr>futures := futures s @ [Pending],
           pending_requests := (pending_requests s)(''req_'' @ take 12 uuid_hex := None)\<rparr>,
         Return (False, JStr (error_msg (round_error
           (round_result fmt envs s (''req_'' @ take 12 uuid_hex) reason MAX_RETRY_COUNT)))),
         concat (map (\<lambda>n. round_log fmt envs s (''req_'' @ take 12 uuid_hex) reason n
                        @ [Sleep RETRY_INTERVAL]) [1..<MAX_RETRY_COUNT])
           @ round_log fmt envs s (''req_'' @ take 12 uuid_hex) reason MAX_RETRY_COUNT)
    \<and> filter is_attempt (snd (snd (request_user_input fmt envs uuid_hex reason s)))
        = map Attempt [1..<MAX_RETRY_COUNT + 1]
    \<and> pending_requests (fst (request_user_input fmt envs uuid_hex reason s))
        (''req_'' @ take 12 uuid_hex) = None"
proof -
  have "1 \<le> MAX_RETRY_COUNT" by (simp add: MAX_RETRY_COUNT_def)
  then have split: "[1..<MAX_RETRY_COUNT + 1] = [1..<MAX_RETRY_COUNT] @ [MAX_RETRY_COUNT]"
    by simp
  have res: "request_user_input fmt envs uuid_hex reason s
      = (s\<lparr>futures := futures s @ [Pending],
           pending_requests := (pending_requests s)(''req_'' @ take 12 uuid_hex := None)\<rparr>,
         Return (False, JStr (error_msg (round_error
           (round_result fmt envs s (''req_'' @ take 12 uuid_hex) reason MAX_RETRY_COUNT)))),
         concat (map (\<lambda>n. round_log fmt envs s (''req_'' @ take 12 uuid_hex) reason n
                        @ [Sleep RETRY_INTERVAL]) [1..<MAX_RETRY_COUNT])
           @ round_log fmt envs s (''req_'' @ take 12 uuid_hex) reason MAX_RETRY_COUNT)"
    unfolding request_user_input_unfold retry_loop_none_accept [OF assms] by simp
  show ?thesis
    unfolding res split by (simp add: attempts_of_round attempts_of_rounds)
qed

theorem connect_failed_after_all_rounds_witness:
  "declined (round_result (\<lambda>v. []) unreachable running ''req_0123456789ab'' ''done'' 3)
   \<and> request_user_input (\<lambda>v. []) unreachable ''0123456789abcdef0123456789abcdef'' ''done'' running
      = (initial\<lparr>main_loop := True, callback_server_ready := True, futures := [Pending]\<rparr>,
         Return (False, JStr (msg_failed_pre @ ''5'' @ msg_failed_post
                                @ msg_unreachable_pre @ ''23983'')),
         [Attempt 1, Post (JInt 23983) ''req_0123456789ab'' ''done'' 23984, Sleep 5,
          Attempt 2, Post (JInt 23983) ''req_0123456789ab'' ''done'' 23984, Sleep 5,
          Attempt 3, Post (JInt 23983) ''req_0123456789ab'' ''done'' 23984, Sleep 5,
          Attempt 4, Post (JInt 23983) ''req_0123456789ab'' ''done'' 23984, Sleep 5,
          Attempt 5, Post (JInt 23983) ''req_0123456789ab'' ''done'' 23984])"
proof -
  note defs = round_result_def try_connect_extension_def discover_extension_ports_def
    unreachable_def post_ask_def default_port_text running_eq initial_def
    CALLBACK_PORT_START_def DEFAULT_EXTENSION_PORT_def
  have h: "\<forall>n. 1 \<le> n \<and> n \<le> MAX_RETRY_COUNT \<longrightarrow>
             declined (round_result (\<lambda>v. []) unreachable running
                         (''req_'' @ take 12 ''0123456789abcdef0123456789abcdef'') ''done'' n)"
    by (simp add: defs)
  have "request_user_input (\<lambda>v. []) unreachable ''0123456789abcdef0123456789abcdef'' ''done''
          running
      = (running\<lparr>futures := futures running @ [Pending],
           pending_requests := (pending_requests running)
             (''req_'' @ take 12 ''0123456789abcdef0123456789abcdef'' := None)\<rparr>,
         Return (False, JStr (error_msg (round_error
           (round_result (\<lambda>v. []) unreachable running
              (''req_'' @ take 12 ''0123456789abcdef0123456789abcdef'') ''done''
              MAX_RETRY_COUNT)))),
         concat (map (\<lambda>n. round_log (\<lambda>v. []) unreachable running
                              (''req_'' @ take 12 ''0123456789abcdef0123456789abcdef'') ''done'' n
                        @ [Sleep RETRY_INTERVAL]) [1..<MAX_RETRY_COUNT])
           @ round_log (\<lambda>v. []) unreachable running
               (''req_'' @ take 12 ''0123456789abcdef0123456789abcdef'') ''done'' MAX_RETRY_COUNT)"
    by (rule connect_failed_after_all_rounds [OF h, THEN conjunct1])
  then show ?thesis
    by (simp add: defs round_log_def error_msg_def five_text RETRY_INTERVAL_def
          MAX_RETRY_COUNT_def upt_conv_Cons)
qed

section \<open>From the callback to the waiting coroutine\<close>

lemma set_future_length: "length (set_future fs c) = length fs"
  by (auto simp: set_future_def split: prod.splits)

lemma set_future_other: "fst c \<noteq> f \<Longrightarrow> set_future fs c ! f = fs ! f"
  by (auto simp: set_future_def split: prod.splits)

lemma foldl_set_future_length: "length (foldl set_future fs cs) = length fs"
  by (induction cs arbitrary: fs) (auto simp: set_future_length)

lemma foldl_set_future_other:
  "f \<notin> fst ` set cs \<Longrightarrow> foldl set_future fs cs ! f = fs ! f"
  by (induction cs arbitrary: fs) (auto simp: set_future_other)

text \<open>The registry invariant holds when \<^verbatim>\<open>main\<close> has started and is kept by the loop
  and by every ask (it is kept by every callback, see above).\<close>

lemma set_future_done: "fs ! f \<noteq> Pending \<Longrightarrow> set_future fs c ! f = fs ! f"
  by (cases "fst c = f") (auto simp: set_future_def split: prod.splits)

text \<open>A future that is done keeps its value, whatever calls the loop runs later.\<close>

lemma run_loop_keeps_done:
  "futures s ! f \<noteq> Pending \<Longrightarrow> futures (run_loop s) ! f = futures s ! f"
proof -
  have "fs ! f \<noteq> Pending \<Longrightarrow> foldl set_future fs cs ! f = fs ! f" for fs cs
    by (induction cs arbitrary: fs) (simp_all add: set_future_done)
  then show "futures s ! f \<noteq> Pending \<Longrightarrow> futures (run_loop s) ! f = futures s ! f"
    by (simp add: run_loop_def)
qed

lemma run_loop_wf: "wf s \<Longrightarrow> wf (run_loop s)"
  by (auto simp: wf_def run_loop_def foldl_set_future_length foldl_set_future_other)

text \<open>The listener touches the port and the readiness flag only.\<close>

lemma bind_loop_fields:
  "pending_requests (fst (bind_loop bind n port s)) = pending_requests s
   \<and> futures (fst (bind_loop bind n port s)) = futures s
   \<and> scheduled (fst (bind_loop bind n port s)) = scheduled s
   \<and> main_loop (fst (bind_loop bind n port s)) = main_loop s"
  by (induction n arbitrary: port) (simp_all split: bind_result.splits)

lemma main_start_wf: "wf s \<Longrightarrow> wf (main_start bind s)"
  by (simp add: wf_def main_start_def start_callback_server_def bind_loop_fields)

lemma wf_running: "wf running"
  by (simp add: wf_def running_eq initial_def)

lemma request_user_input_wf:
  assumes "wf s"
  shows "wf (fst (request_user_input fmt envs uuid_hex reason s))"
proof -
  have fresh: "\<And>k f. pending_requests s k = Some f \<Longrightarrow> f < length (futures s)"
    and sched: "\<And>f. f \<in> fst ` set (scheduled s) \<Longrightarrow> f < length (futures s)"
    using assms by (auto simp: wf_def)
  have "wf (s\<lparr>futures := futures s @ [Pending],
              pending_requests := (pending_requests s)(''req_'' @ take 12 uuid_hex := None)\<rparr>)"
    using assms fresh sched
    by (auto simp: wf_def inj_on_def dom_def nth_append less_Suc_eq split: if_splits)
  moreover have "wf (s\<lparr>futures := futures s @ [Pending],
              pending_requests :=
                (pending_requests s)(''req_'' @ take 12 uuid_hex \<mapsto> length (futures s))\<rparr>)"
    using assms sched
    by (auto simp: wf_def inj_on_def dom_def nth_append less_Suc_eq dest: fresh
             split: if_splits)
  ultimately show ?thesis
    by (simp add: request_user_input_unfold split: prod.splits sum.splits)
qed

text \<open>
  An ask that is suspended stays so while callbacks for other requests are handled; the
  callback for it then resolves its future with what the callback delivered.
\<close>

lemma do_POST_names:
  "fst (do_POST s req) = s \<or> (\<exists>k c u. names req k \<and> fst (do_POST s req) = resolve s k c u)"
  by (auto simp: do_POST_def names_def Let_def
           split: body_read.splits loaded.splits json.splits)

lemma resolve_other:
  "k' \<noteq> k \<Longrightarrow> pending_requests (resolve s k' c u) k = pending_requests s k"
  by (auto simp: resolve_def split: option.splits)

lemma resolve_main_loop: "main_loop (resolve s k c u) = main_loop s"
  by (auto simp: resolve_def split: option.splits)

lemma awaiting_do_POST:
  assumes "awaiting s k fut" and "\<not> names req k"
  shows "awaiting (fst (do_POST s req)) k fut"
proof -
  from do_POST_names [of s req] show ?thesis
  proof
    assume "fst (do_POST s req) = s"
    with assms show ?thesis by simp
  next
    assume "\<exists>k' c u. names req k' \<and> fst (do_POST s req) = resolve s k' c u"
    then obtain k' c u where n: "names req k'" and r: "fst (do_POST s req) = resolve s k' c u"
      by blast
    from n assms(2) have "k' \<noteq> k" by auto
    with assms(1) show ?thesis
      by (simp add: awaiting_def r resolve_wf resolve_other resolve_main_loop)
  qed
qed

lemma awaiting_do_POSTs:
  "awaiting s k fut \<Longrightarrow> \<forall>r\<in>set others. \<not> names r k \<Longrightarrow> awaiting (do_POSTs s others) k fut"
  by (induction others arbitrary: s) (simp_all add: awaiting_do_POST)

lemma awaiting_ask:
  assumes wf: "wf s" and loop: "main_loop s"
    and acc: "\<exists>k. 1 \<le> k \<and> k \<le> MAX_RETRY_COUNT
                \<and> accepted (round_result fmt envs s (''req_'' @ take 12 uuid_hex) reason k)
                \<and> (\<forall>n. 1 \<le> n \<and> n < k \<longrightarrow>
                      returned (round_result fmt envs s (''req_'' @ take 12 uuid_hex) reason n))"
  shows "fst (snd (request_user_input fmt envs uuid_hex reason s)) = Awaiting (length (futures s))"
    and "awaiting (fst (request_user_input fmt envs uuid_hex reason s))
           (''req_'' @ take 12 uuid_hex) (length (futures s))"
proof -
  from acc obtain k where k: "1 \<le> k" "k \<le> MAX_RETRY_COUNT"
    and ok: "accepted (round_result fmt envs s (''req_'' @ take 12 uuid_hex) reason k)"
    and pre: "\<forall>n\<in>set [1..<k].
                returned (round_result fmt envs s (''req_'' @ take 12 uuid_hex) reason n)"
    by auto
  have "\<exists>err. fst (retry_loop fmt envs s (''req_'' @ take 12 uuid_hex) reason
                        ([1..<k] @ k # [Suc k..<MAX_RETRY_COUNT + 1]) None) = Inr (True, err)"
    using pre ok by (rule retry_loop_connects)
  then obtain err evs
    where c: "retry_loop fmt envs s (''req_'' @ take 12 uuid_hex) reason
                [1..<MAX_RETRY_COUNT + 1] None = (Inr (True, err), evs)"
    using rounds_split [OF k]
    by (cases "retry_loop fmt envs s (''req_'' @ take 12 uuid_hex) reason
                 [1..<MAX_RETRY_COUNT + 1] None") auto
  then show "fst (snd (request_user_input fmt envs uuid_hex reason s))
               = Awaiting (length (futures s))"
    by (simp add: request_user_input_unfold)
  have "wf (fst (request_user_input fmt envs uuid_hex reason s))"
    using wf by (rule request_user_input_wf)
  with c loop show "awaiting (fst (request_user_input fmt envs uuid_hex reason s))
           (''req_'' @ take 12 uuid_hex) (length (futures s))"
    by (simp add: awaiting_def request_user_input_unfold)
qed

lemma awaiting_pending:
  "awaiting s k fut \<Longrightarrow> await_future s fut = None"
  by (auto simp: awaiting_def wf_def await_future_def)

lemma awaiting_callback:
  assumes aw: "awaiting s k fut"
    and req: "path req = ''/response''" "body req = Body (Loaded (JObj kv))"
      "py_get kv ''requestId'' JNull = JStr k"
  shows "snd (do_POST s req) = Reply 200 JsonSuccess"
    and "pending_requests (fst (do_POST s req)) k = None"
    and "await_future (run_loop (fst (do_POST s req))) fut
         = (if truthy (py_get kv ''cancelled'' (JBool False)) then Some (False, JStr msg_cancelled)
            else Some (True, py_get kv ''userInput'' (JStr [])))"
proof -
  let ?c = "py_get kv ''cancelled'' (JBool False)"
  let ?u = "py_get kv ''userInput'' (JStr [])"
  let ?act = "if truthy ?c then SetException msg_cancelled else SetResult ?u"
  have p: "pending_requests s k = Some fut" and m: "main_loop s" and wf: "wf s"
    using aw by (simp_all add: awaiting_def)
  have post: "do_POST s req = (resolve s k ?c ?u, Reply 200 JsonSuccess)"
    using req p m by (rule do_POST_found)
  show "snd (do_POST s req) = Reply 200 JsonSuccess"
    by (simp add: post)
  show "pending_requests (fst (do_POST s req)) k = None"
    by (simp add: post resolve_removes)
  have res: "resolve s k ?c ?u
             = s\<lparr>pending_requests := (pending_requests s)(k := None),
                 scheduled := scheduled s @ [(fut, ?act)]\<rparr>"
    by (simp add: resolve_def p)
  have notin: "fut \<notin> fst ` set (scheduled s)" and len: "fut < length (futures s)"
    and pend: "futures s ! fut = Pending"
    using wf p by (auto simp: wf_def)
  let ?F = "foldl set_future (futures s) (scheduled s)"
  have F: "length ?F = length (futures s)" "?F ! fut = Pending"
    using foldl_set_future_other [OF notin, of "futures s"] pend
    by (simp_all add: foldl_set_future_length)
  have "futures (run_loop (resolve s k ?c ?u))
        = ?F[fut := (case ?act of SetResult v \<Rightarrow> Result v | SetException e \<Rightarrow> Exn e)]"
    unfolding res using len by (simp add: run_loop_def set_future_def F)
  then show "await_future (run_loop (fst (do_POST s req))) fut
         = (if truthy ?c then Some (False, JStr msg_cancelled) else Some (True, ?u))"
    using len by (simp add: post await_future_def F)
qed

text \<open>
  C2. Let some round of the ask be accepted, the rounds before it having returned, in a
  state where \<^verbatim>\<open>main\<close> has recorded its loop. Then the ask is suspended on its future,
  and stays so while callbacks for other requests are handled; a callback that names the
  request's id, carries the text \<open>user_input\<close> and is not cancelled is answered 200 and
  removes the request from the registry; and once the loop has run the scheduled calls, the
  wait returns the success pair with exactly that text. (The text may also be empty.)
\<close>

theorem answered_after_accept:
  assumes "wf s" and "main_loop s"
    and "\<exists>k. 1 \<le> k \<and> k \<le> MAX_RETRY_COUNT
           \<and> accepted (round_result fmt envs s (''req_'' @ take 12 uuid_hex) reason k)
           \<and> (\<forall>n. 1 \<le> n \<and> n < k \<longrightarrow>
                 returned (round_result fmt envs s (''req_'' @ take 12 uuid_hex) reason n))"
    and "\<forall>r\<in>set others. \<not> names r (''req_'' @ take 12 uuid_hex)"
    and "path req = ''/response''" and "body req = Body (Loaded (JObj kv))"
    and "py_get kv ''requestId'' JNull = JStr (''req_'' @ take 12 uuid_hex)"
    and "py_get kv ''userInput'' (JStr []) = JStr user_input"
    and "\<not> truthy (py_get kv ''cancelled'' (JBool False))"
  shows "fst (snd (request_user_input fmt envs uuid_hex reason s)) = Awaiting (length (futures s))
    \<and> await_future (do_POSTs (fst (request_user_input fmt envs uuid_hex reason s)) others)
        (length (futures s)) = None
    \<and> snd (do_POST (do_POSTs (fst (request_user_input fmt envs uuid_hex reason s)) others) req)
        = Reply 200 JsonSuccess
    \<and> pending_requests
        (fst (do_POST (do_POSTs (fst (request_user_input fmt envs uuid_hex reason s)) others) req))
        (''req_'' @ take 12 uuid_hex) = None
    \<and> await_future
        (run_loop
          (fst (do_POST (do_POSTs (fst (request_user_input fmt envs uuid_hex reason s)) others)
                  req)))
        (length (futures s)) = Some (True, JStr user_input)"
proof -
  have aw: "awaiting (do_POSTs (fst (request_user_input fmt envs uuid_hex reason s)) others)
              (''req_'' @ take 12 uuid_hex) (length (futures s))"
    using awaiting_ask(2) [OF assms(1-3)] assms(4) by (rule awaiting_do_POSTs)
  show ?thesis
    using awaiting_ask(1) [OF assms(1-3)] awaiting_pending [OF aw]
      awaiting_callback [OF aw assms(5-7)] assms(8,9)
    by simp
qed

theorem answered_after_accept_witness:
  "wf running \<and> main_loop running
   \<and> accepted (round_result (\<lambda>v. []) accepted_at_once running ''req_0123456789ab'' ''done'' 1)
   \<and> \<not> names (answer ''req_ffffffffffff'' ''hello'') ''req_0123456789ab''
   \<and> fst (snd (request_user_input (\<lambda>v. []) accepted_at_once
                  ''0123456789abcdef0123456789abcdef'' ''done'' running)) = Awaiting 0
   \<and> await_future
        (run_loop
          (fst (do_POST
                  (do_POSTs (fst (request_user_input (\<lambda>v. []) accepted_at_once
                                    ''0123456789abcdef0123456789abcdef'' ''done'' running))
                     [answer ''req_ffffffffffff'' ''hello''])
                  (answer ''req_0123456789ab'' ''go on'')))) 0
       = Some (True, JStr ''go on'')"
proof -
  have w: "wf running" by (rule wf_running)
  have m: "main_loop running" by (simp add: running_eq)
  have a: "accepted (round_result (\<lambda>v. []) accepted_at_once running
                       (''req_'' @ take 12 ''0123456789abcdef0123456789abcdef'') ''done'' 1)"
    by (simp add: round_result_def try_connect_extension_def discover_extension_ports_def
          accepted_at_once_def accepting_def post_ask_def py_get_def)
  have "1 \<le> (1::nat) \<and> 1 \<le> MAX_RETRY_COUNT
        \<and> (\<forall>n. 1 \<le> n \<and> n < (1::nat) \<longrightarrow>
              returned (round_result (\<lambda>v. []) accepted_at_once running
                (''req_'' @ take 12 ''0123456789abcdef0123456789abcdef'') ''done'' n))"
    by (simp add: MAX_RETRY_COUNT_def)
  with a have e: "\<exists>k. 1 \<le> k \<and> k \<le> MAX_RETRY_COUNT
           \<and> accepted (round_result (\<lambda>v. []) accepted_at_once running
                          (''req_'' @ take 12 ''0123456789abcdef0123456789abcdef'') ''done'' k)
           \<and> (\<forall>n. 1 \<le> n \<and> n < k \<longrightarrow>
                 returned (round_result (\<lambda>v. []) accepted_at_once running
                   (''req_'' @ take 12 ''0123456789abcdef0123456789abcdef'') ''done'' n))"
    by blast
  have o: "\<forall>r\<in>set [answer ''req_ffffffffffff'' ''hello''].
             \<not> names r (''req_'' @ take 12 ''0123456789abcdef0123456789abcdef'')"
    by (simp add: names_def answer_def py_get_def)
  have f: "futures running = []" by (simp add: running_eq initial_def)
  show ?thesis
    using w m a o
      answered_after_accept [OF w m e o, of "answer ''req_0123456789ab'' ''go on''"
        "[(''requestId'', JStr ''req_0123456789ab''), (''userInput'', JStr ''go on''),
          (''cancelled'', JBool False)]" "''go on''"]
    by (simp add: answer_def py_get_def f)
qed

text \<open>
  C3. Under the same conditions a callback that names the request's id and is cancelled is
  answered 200 and removes the request from the registry, and the wait returns the failure
  pair with the cancellation text. That pair differs from every pair the ask returns when
  the connection failed, whatever error text that one carries.
\<close>

theorem cancelled_after_accept:
  assumes "wf s" and "main_loop s"
    and "\<exists>k. 1 \<le> k \<and> k \<le> MAX_RETRY_COUNT
           \<and> accepted (round_result fmt envs s (''req_'' @ take 12 uuid_hex) reason k)
           \<and> (\<forall>n. 1 \<le> n \<and> n < k \<longrightarrow>
                 returned (round_result fmt envs s (''req_'' @ take 12 uuid_hex) reason n))"
    and "\<forall>r\<in>set others. \<not> names r (''req_'' @ take 12 uuid_hex)"
    and "path req = ''/response''" and "body req = Body (Loaded (JObj kv))"
    and "py_get kv ''requestId'' JNull = JStr (''req_'' @ take 12 uuid_hex)"
    and "truthy (py_get kv ''cancelled'' (JBool False))"
  shows "fst (snd (request_user_input fmt envs uuid_hex reason s)) = Awaiting (length (futures s))
    \<and> snd (do_POST (do_POSTs (fst (request_user_input fmt envs uuid_hex reason s)) others) req)
        = Reply 200 JsonSuccess
    \<and> pending_requests
        (fst (do_POST (do_POSTs (fst (request_user_input fmt envs uuid_hex reason s)) others) req))
        (''req_'' @ take 12 uuid_hex) = None
    \<and> await_future
        (run_loop
          (fst (do_POST (do_POSTs (fst (request_user_input fmt envs uuid_hex reason s)) others)
                  req)))
        (length (futures s)) = Some (False, JStr msg_cancelled)
    \<and> (False, JStr msg_cancelled) \<noteq> (False, JStr (error_msg last_error))"
proof -
  have aw: "awaiting (do_POSTs (fst (request_user_input fmt envs uuid_hex reason s)) others)
              (''req_'' @ take 12 uuid_hex) (length (futures s))"
    using awaiting_ask(2) [OF assms(1-3)] assms(4) by (rule awaiting_do_POSTs)
  have "msg_cancelled \<noteq> error_msg last_error"
    by (simp add: msg_cancelled_def error_msg_def msg_failed_pre_def)
  then show ?thesis
    using awaiting_ask(1) [OF assms(1-3)] awaiting_callback [OF aw assms(5-7)] assms(8)
    by simp
qed

theorem cancelled_after_accept_witness:
  "wf running \<and> main_loop running
   \<and> accepted (round_result (\<lambda>v. []) accepted_at_once running ''req_0123456789ab'' ''done'' 1)
   \<and> \<not> names (cancel ''req_ffffffffffff'') ''req_0123456789ab''
   \<and> truthy (JBool True)
   \<and> await_future
        (run_loop
          (fst (do_POST
                  (do_POSTs (fst (request_user_input (\<lambda>v. []) accepted_at_once
                                    ''0123456789abcdef0123456789abcdef'' ''done'' running))
                     [cancel ''req_ffffffffffff''])
                  (cancel ''req_0123456789ab'')))) 0
       = Some (False, JStr msg_cancelled)
   \<and> pending_requests
        (fst (do_POST
                (do_POSTs (fst (request_user_input (\<lambda>v. []) accepted_at_once
                                  ''0123456789abcdef0123456789abcdef'' ''done'' running))
                   [cancel ''req_ffffffffffff''])
                (cancel ''req_0123456789ab''))) ''req_0123456789ab'' = None"
proof -
  have w: "wf running" by (rule wf_running)
  have m: "main_loop running" by (simp add: running_eq)
  have a: "accepted (round_result (\<lambda>v. []) accepted_at_once running
                       (''req_'' @ take 12 ''0123456789abcdef0123456789abcdef'') ''done'' 1)"
    by (simp add: round_result_def try_connect_extension_def discover_extension_ports_def
          accepted_at_once_def accepting_def post_ask_def py_get_def)
  have "1 \<le> (1::nat) \<and> 1 \<le> MAX_RETRY_COUNT
        \<and> (\<forall>n. 1 \<le> n \<and> n < (1::nat) \<longrightarrow>
              returned (round_result (\<lambda>v. []) accepted_at_once running
                (''req_'' @ take 12 ''0123456789abcdef0123456789abcdef'') ''done'' n))"
    by (simp add: MAX_RETRY_COUNT_def)
  with a have e: "\<exists>k. 1 \<le> k \<and> k \<le> MAX_RETRY_COUNT
           \<and> accepted (round_result (\<lambda>v. []) accepted_at_once running
                          (''req_'' @ take 12 ''0123456789abcdef0123456789abcdef'') ''done'' k)
           \<and> (\<forall>n. 1 \<le> n \<and> n < k \<longrightarrow>
                 returned (round_result (\<lambda>v. []) accepted_at_once running
                   (''req_'' @ take 12 ''0123456789abcdef0123456789abcdef'') ''done'' n))"
    by blast
  have o: "\<forall>r\<in>set [cancel ''req_ffffffffffff''].
             \<not> names r (''req_'' @ take 12 ''0123456789abcdef0123456789abcdef'')"
    by (simp add: names_def cancel_def py_get_def)
  have f: "futures running = []" by (simp add: running_eq initial_def)
  show ?thesis
    using w m a o
      cancelled_after_accept [OF w m e o, of "cancel ''req_0123456789ab''"
        "[(''requestId'', JStr ''req_0123456789ab''), (''cancelled'', JBool True)]" None]
    by (simp add: cancel_def py_get_def f)
qed

end
